theory Spec2Isabelle
  imports Complex_Main
begin

section \<open>The document tree (libxml2)\<close>

text \<open>
  \<^verbatim>\<open>configuration.c\<close> walks a tree built by libxml2. Only the members of
  \<^verbatim>\<open>xmlNode\<close> and \<^verbatim>\<open>xmlAttr\<close> that the file reads are represented. A \<^verbatim>\<open>next\<close>-linked
  chain is a list. A \<^verbatim>\<open>char *\<close> that may be \<^verbatim>\<open>NULL\<close> is a \<open>string option\<close>.
\<close>

datatype xmlElementType =
  XML_ELEMENT_NODE | XML_TEXT_NODE | XML_CDATA_SECTION_NODE | XML_COMMENT_NODE

text \<open>
  An attribute: its \<^verbatim>\<open>name\<close> and its \<^verbatim>\<open>children\<close> (the value's node list, \<open>None\<close> for a
  \<^verbatim>\<open>NULL\<close> list, otherwise the string that \<^verbatim>\<open>xmlNodeListGetString\<close> builds from it).
\<close>

datatype xmlAttr = XmlAttr (attr_name: "string option") (attr_children: "string option")

datatype xmlNode =
  XmlNode (node_type: xmlElementType) (node_name: string) (node_properties: "xmlAttr list")
    (node_children: "xmlNode list") (node_content: string)

text \<open>
  \<^verbatim>\<open>xmlNodeGetContent\<close>: for an element, the text of all text and CDATA descendants in
  document order; for any other node, its own content.
\<close>

fun xmlBufGetNodeContent :: "xmlNode \<Rightarrow> string" where
  "xmlBufGetNodeContent (XmlNode t n ps cs c) =
     (case t of
        XML_ELEMENT_NODE \<Rightarrow> concat (map xmlBufGetNodeContent cs)
      | XML_TEXT_NODE \<Rightarrow> c
      | XML_CDATA_SECTION_NODE \<Rightarrow> c
      | XML_COMMENT_NODE \<Rightarrow> [])"

definition xmlNodeGetContent :: "xmlNode \<Rightarrow> string" where
  "xmlNodeGetContent cur =
     (if node_type cur = XML_ELEMENT_NODE then xmlBufGetNodeContent cur else node_content cur)"

section \<open>Numbers\<close>

text \<open>
  A \<^verbatim>\<open>double\<close>: a finite value, an infinity or a NaN. \<^verbatim>\<open>==\<close> on doubles is
  \<open>double_eq\<close>: a NaN is equal to nothing, itself included.
\<close>

datatype double = Finite real | PosInf | NegInf | NaN

definition double_eq :: "double \<Rightarrow> double \<Rightarrow> bool" where
  "double_eq a b = (a \<noteq> NaN \<and> b \<noteq> NaN \<and> a = b)"

text \<open>
  \<^verbatim>\<open>strtol(nptr, &endptr, 10)\<close> of the C library, with a 64-bit \<^verbatim>\<open>long\<close>: white space
  is skipped, then an optional sign and the longest run of decimal digits are read. The
  result is the value, clamped to the range of \<^verbatim>\<open>long\<close>, and the unread rest of the
  string (\<^verbatim>\<open>endptr\<close>). With no digit at all the value is 0 and \<^verbatim>\<open>endptr\<close> is \<^verbatim>\<open>nptr\<close>.
\<close>

definition isspace :: "char \<Rightarrow> bool" where
  "isspace c = (let n = (of_char c :: nat) in n = 32 \<or> (9 \<le> n \<and> n \<le> 13))"

definition isdigit :: "char \<Rightarrow> bool" where
  "isdigit c = (let n = (of_char c :: nat) in 48 \<le> n \<and> n \<le> 57)"

fun digits_value :: "int \<Rightarrow> string \<Rightarrow> int" where
  "digits_value acc [] = acc"
| "digits_value acc (c # cs) = digits_value (acc * 10 + (of_char c - 48)) cs"

definition LONG_MAX :: int where
  "LONG_MAX = 2 ^ 63 - 1"

definition LONG_MIN :: int where
  "LONG_MIN = - (2 ^ 63)"

definition strtol :: "string \<Rightarrow> int \<times> string" where
  "strtol nptr =
     (let s = dropWhile isspace nptr;
          neg = (s \<noteq> [] \<and> hd s = CHR ''-'');
          s' = (if s \<noteq> [] \<and> (hd s = CHR ''-'' \<or> hd s = CHR ''+'') then tl s else s);
          ds = takeWhile isdigit s';
          v = digits_value 0 ds
      in if ds = [] then (0, nptr)
         else (max LONG_MIN (min LONG_MAX (if neg then - v else v)), dropWhile isdigit s'))"

text \<open>
  The cast \<^verbatim>\<open>(int)\<close> of a \<^verbatim>\<open>long\<close>, with a 32-bit \<^verbatim>\<open>int\<close>: the value is reduced
  modulo \<open>2 ^ 32\<close> into the signed range.
\<close>

definition int_of_long :: "int \<Rightarrow> int" where
  "int_of_long v = (v + 2 ^ 31) mod 2 ^ 32 - 2 ^ 31"

section \<open>The attribute extractor\<close>

datatype geocache_status = GEOCACHE_SUCCESS | GEOCACHE_FAILURE

text \<open>
  The loop of \<^verbatim>\<open>extractNameAndTypeAttributes\<close>, on the current values of \<^verbatim>\<open>*name\<close> and
  \<^verbatim>\<open>*type\<close>. It stops at the end of the chain or at the first attribute whose name or
  value list is \<^verbatim>\<open>NULL\<close>.
\<close>

fun extract_loop :: "xmlAttr list \<Rightarrow> string option \<Rightarrow> string option \<Rightarrow> string option \<times> string option" where
  "extract_loop [] name type = (name, type)"
| "extract_loop (attribute # rest) name type =
     (if attr_name attribute \<noteq> None \<and> attr_children attribute \<noteq> None then
        (let name' = (if attr_name attribute = Some ''name'' then attr_children attribute else name);
             type' = (if attr_name attribute = Some ''type'' then attr_children attribute else type)
         in extract_loop rest name' type')
      else (name, type))"

definition extractNameAndTypeAttributes ::
  "xmlAttr list \<Rightarrow> geocache_status \<times> string option \<times> string option" where
  "extractNameAndTypeAttributes attribute =
     (let (name, type) = extract_loop attribute None None
      in if name \<noteq> None \<and> type \<noteq> None then (GEOCACHE_SUCCESS, name, type)
         else (GEOCACHE_FAILURE, name, type))"

section \<open>The error context\<close>

text \<open>
  Modelled from the spec: \<^verbatim>\<open>geocache_context\<close>, its \<^verbatim>\<open>set_error\<close> member and the macro
  \<^verbatim>\<open>GC_CHECK_ERROR\<close> are declared in \<^verbatim>\<open>geocache.h\<close>. The context carries the shared
  error slot; it is kept here as the sequence of the \<^verbatim>\<open>set_error\<close> calls made so far, each
  with its error kind, its format string and its arguments (\<open>Fmt_s\<close> for a \<^verbatim>\<open>%s\<close>,
  \<open>Fmt_d\<close> for a \<^verbatim>\<open>%d\<close>, \<open>Fmt_f\<close> for a \<^verbatim>\<open>%f\<close>). \<^verbatim>\<open>GC_CHECK_ERROR(ctx)\<close> returns
  from the calling function when an error has been set.
\<close>

datatype geocache_errcode = GEOCACHE_PARSE_ERROR | GEOCACHE_DISK_ERROR

datatype fmt_arg = Fmt_s string | Fmt_d int | Fmt_f "double option"

type_synonym error_entry = "geocache_errcode \<times> string \<times> fmt_arg list"

record geocache_context =
  errors :: "error_entry list"

definition set_error :: "geocache_context \<Rightarrow> geocache_errcode \<Rightarrow> string \<Rightarrow> fmt_arg list \<Rightarrow> geocache_context" where
  "set_error ctx code msg args = ctx\<lparr>errors := errors ctx @ [(code, msg, args)]\<rparr>"

definition GC_CHECK_ERROR :: "geocache_context \<Rightarrow> bool" where
  "GC_CHECK_ERROR ctx = (errors ctx \<noteq> [])"

section \<open>Entities and the configuration\<close>

text \<open>
  Of each entity, the members that \<^verbatim>\<open>configuration.c\<close> reads or writes. A pointer to
  an entity is the entity or \<open>None\<close> for \<^verbatim>\<open>NULL\<close>; the back pointer \<^verbatim>\<open>tileset->config\<close> is
  not kept. The members owned by a source or cache variant are out of reach of this file.
\<close>

record geocache_source =
  source_name :: "string option"
  source_srs :: "string option"

record geocache_cache =
  cache_name :: "string option"

datatype geocache_compression_type =
  GEOCACHE_COMPRESSION_BEST | GEOCACHE_COMPRESSION_FAST | GEOCACHE_COMPRESSION_DEFAULT

text \<open>
  Modelled from the spec: the image format variants and their factories are defined in
  \<^verbatim>\<open>imageio.c\<close>. A format is plain PNG (name, compression), quantized PNG (name,
  compression, number of colors) or JPEG (name, quality); each factory builds its variant
  from its arguments.
\<close>

datatype geocache_image_format =
  PNG_FORMAT string geocache_compression_type
| PNG_Q_FORMAT string geocache_compression_type int
| JPEG_FORMAT string int

definition geocache_imageio_create_png_format ::
  "string \<Rightarrow> geocache_compression_type \<Rightarrow> geocache_image_format option" where
  "geocache_imageio_create_png_format name compression = Some (PNG_FORMAT name compression)"

definition geocache_imageio_create_png_q_format ::
  "string \<Rightarrow> geocache_compression_type \<Rightarrow> int \<Rightarrow> geocache_image_format option" where
  "geocache_imageio_create_png_q_format name compression ncolors =
     Some (PNG_Q_FORMAT name compression ncolors)"

definition geocache_imageio_create_jpeg_format :: "string \<Rightarrow> int \<Rightarrow> geocache_image_format option" where
  "geocache_imageio_create_jpeg_format name quality = Some (JPEG_FORMAT name quality)"

record geocache_tileset =
  tileset_name :: "string option"
  tileset_cache :: "geocache_cache option"
  tileset_source :: "geocache_source option"
  tileset_srs :: "string option"
  tile_sx :: int
  tile_sy :: int
  extent :: "nat \<Rightarrow> double"
  resolutions :: "double list"
  levels :: int
  metasize_x :: int
  metasize_y :: int
  metabuffer :: int
  expires :: int
  tileset_format :: "geocache_image_format option"

datatype geocache_service_type = GEOCACHE_SERVICE_WMS | GEOCACHE_SERVICE_TMS

text \<open>
  Modelled from the spec: the service objects are built in \<^verbatim>\<open>service_wms.c\<close> and
  \<^verbatim>\<open>service_tms.c\<close>; a service object stands for its protocol.
\<close>

datatype geocache_service = Service geocache_service_type

definition geocache_service_wms_create :: "geocache_service option" where
  "geocache_service_wms_create = Some (Service GEOCACHE_SERVICE_WMS)"

definition geocache_service_tms_create :: "geocache_service option" where
  "geocache_service_tms_create = Some (Service GEOCACHE_SERVICE_TMS)"

datatype geocache_error_reporting = GEOCACHE_REPORT_MSG

record geocache_cfg =
  caches :: "string \<rightharpoonup> geocache_cache"
  sources :: "string \<rightharpoonup> geocache_source"
  tilesets :: "string \<rightharpoonup> geocache_tileset"
  image_formats :: "string \<rightharpoonup> geocache_image_format"
  merge_format :: "geocache_image_format option"
  lockdir :: string
  services :: "geocache_service_type \<Rightarrow> geocache_service option"
  reporting :: geocache_error_reporting

subsection \<open>The registry\<close>

definition geocache_configuration_get_source :: "geocache_cfg \<Rightarrow> string \<Rightarrow> geocache_source option" where
  "geocache_configuration_get_source config key = sources config key"

definition geocache_configuration_get_cache :: "geocache_cfg \<Rightarrow> string \<Rightarrow> geocache_cache option" where
  "geocache_configuration_get_cache config key = caches config key"

definition geocache_configuration_get_tileset :: "geocache_cfg \<Rightarrow> string \<Rightarrow> geocache_tileset option" where
  "geocache_configuration_get_tileset config key = tilesets config key"

definition geocache_configuration_get_image_format ::
  "geocache_cfg \<Rightarrow> string \<Rightarrow> geocache_image_format option" where
  "geocache_configuration_get_image_format config key = image_formats config key"

text \<open>
  \<^verbatim>\<open>apr_hash_set\<close> stores the value under the key, and removes the key when the value is
  \<^verbatim>\<open>NULL\<close>. \<^verbatim>\<open>geocache_configuration_add_tileset\<close> dereferences its tileset first.
\<close>

definition geocache_configuration_add_source ::
  "geocache_cfg \<Rightarrow> geocache_source option \<Rightarrow> string \<Rightarrow> geocache_cfg" where
  "geocache_configuration_add_source config source key =
     config\<lparr>sources := (sources config)(key := source)\<rparr>"

definition geocache_configuration_add_tileset ::
  "geocache_cfg \<Rightarrow> geocache_tileset \<Rightarrow> string \<Rightarrow> geocache_cfg" where
  "geocache_configuration_add_tileset config tileset key =
     config\<lparr>tilesets := (tilesets config)(key \<mapsto> tileset)\<rparr>"

definition geocache_configuration_add_cache ::
  "geocache_cfg \<Rightarrow> geocache_cache option \<Rightarrow> string \<Rightarrow> geocache_cfg" where
  "geocache_configuration_add_cache config cache key =
     config\<lparr>caches := (caches config)(key := cache)\<rparr>"

definition geocache_configuration_add_image_format ::
  "geocache_cfg \<Rightarrow> geocache_image_format option \<Rightarrow> string \<Rightarrow> geocache_cfg" where
  "geocache_configuration_add_image_format config format key =
     config\<lparr>image_formats := (image_formats config)(key := format)\<rparr>"

text \<open>
  \<^verbatim>\<open>geocache_configuration_create\<close>: the zeroed configuration with four empty tables, then
  the three built-in formats, the default merge format, lock directory and reporting.
\<close>

definition geocache_configuration_create :: geocache_cfg where
  "geocache_configuration_create =
     (let cfg = \<lparr>caches = Map.empty, sources = Map.empty, tilesets = Map.empty,
                 image_formats = Map.empty, merge_format = None, lockdir = [],
                 services = (\<lambda>_. None), reporting = GEOCACHE_REPORT_MSG\<rparr>;
          cfg = geocache_configuration_add_image_format cfg
                  (geocache_imageio_create_png_format ''PNG'' GEOCACHE_COMPRESSION_FAST) ''PNG'';
          cfg = geocache_configuration_add_image_format cfg
                  (geocache_imageio_create_png_q_format ''PNG'' GEOCACHE_COMPRESSION_FAST 256) ''PNG8'';
          cfg = geocache_configuration_add_image_format cfg
                  (geocache_imageio_create_jpeg_format ''JPEG'' 95) ''JPEG''
      in cfg\<lparr>merge_format := geocache_configuration_get_image_format cfg ''PNG'',
             lockdir := ''/tmp/geocache_locks'',
             reporting := GEOCACHE_REPORT_MSG\<rparr>)"

section \<open>External collaborators\<close>

text \<open>
  The functions that \<^verbatim>\<open>configuration.c\<close> calls and does not define are parameters: the
  source and cache variants (their factory, which may return \<^verbatim>\<open>NULL\<close>, and their
  \<^verbatim>\<open>configuration_parse\<close> and \<^verbatim>\<open>configuration_check\<close> members, which return the errors they
  set and the entity as they leave it), the tileset factory, the two list extractors (their
  status and the \<^verbatim>\<open>nvalues\<close> numbers they store), the document reader, and the two file
  system calls of the lock directory probe (\<open>True\<close> for \<^verbatim>\<open>APR_SUCCESS\<close>).
\<close>

record externals =
  geocache_source_wms_create :: "geocache_source option"
  source_configuration_parse :: "xmlNode \<Rightarrow> geocache_source \<Rightarrow> error_entry list \<times> geocache_source"
  source_configuration_check :: "geocache_source \<Rightarrow> error_entry list \<times> geocache_source"
  geocache_cache_disk_create :: "geocache_cache option"
  cache_configuration_parse :: "xmlNode \<Rightarrow> geocache_cache \<Rightarrow> error_entry list \<times> geocache_cache"
  cache_configuration_check :: "geocache_cache \<Rightarrow> error_entry list \<times> geocache_cache"
  geocache_tileset_create :: geocache_tileset
  geocache_util_extract_int_list :: "string \<Rightarrow> char \<Rightarrow> geocache_status \<times> int list"
  geocache_util_extract_double_list :: "string \<Rightarrow> char \<Rightarrow> geocache_status \<times> double list"
  xmlReadFile :: "string \<Rightarrow> xmlNode option"
  apr_dir_make_recursive :: "string \<Rightarrow> bool"
  apr_file_open :: "string \<Rightarrow> bool"

definition report :: "geocache_context \<Rightarrow> error_entry list \<Rightarrow> geocache_context" where
  "report ctx es = ctx\<lparr>errors := errors ctx @ es\<rparr>"

section \<open>The source parser\<close>

fun parseSource_children :: "xmlNode list \<Rightarrow> geocache_source \<Rightarrow> geocache_source" where
  "parseSource_children [] source = source"
| "parseSource_children (cur_node # rest) source =
     (if node_type cur_node \<noteq> XML_ELEMENT_NODE then parseSource_children rest source
      else if node_name cur_node = ''srs'' then
        parseSource_children rest (source\<lparr>source_srs := Some (xmlNodeGetContent cur_node)\<rparr>)
      else parseSource_children rest source)"

definition parseSource ::
  "externals \<Rightarrow> geocache_context \<Rightarrow> xmlNode \<Rightarrow> geocache_cfg \<Rightarrow> geocache_context \<times> geocache_cfg" where
  "parseSource env ctx node config =
     (if node_name node \<noteq> ''source'' then
        (set_error ctx GEOCACHE_PARSE_ERROR ''SEVERE: found tag %s instead of <source>''
           [Fmt_s (node_name node)], config)
      else
        let (rc, name, type) = extractNameAndTypeAttributes (node_properties node) in
        if name = None \<or> name = Some [] then
          (set_error ctx GEOCACHE_PARSE_ERROR
             ''mandatory attribute \"name\" not found in <source>'' [], config)
        else if geocache_configuration_get_source config (the name) \<noteq> None then
          (set_error ctx GEOCACHE_PARSE_ERROR ''duplicate source with name \"%s\"''
             [Fmt_s (the name)], config)
        else if type = None \<or> type = Some [] then
          (set_error ctx GEOCACHE_PARSE_ERROR
             ''mandatory attribute \"type\" not found in <source>'' [], config)
        else if the type \<noteq> ''wms'' then
          (set_error ctx GEOCACHE_PARSE_ERROR ''unknown source type %s for source \"%s\"''
             [Fmt_s (the type), Fmt_s (the name)], config)
        else
          (case geocache_source_wms_create env of
             None \<Rightarrow>
               (set_error ctx GEOCACHE_PARSE_ERROR ''failed to parse source \"%s\"''
                  [Fmt_s (the name)], config)
           | Some source \<Rightarrow>
               let source = source\<lparr>source_name := name\<rparr>;
                   source = parseSource_children (node_children node) source;
                   (es, source) = source_configuration_parse env node source;
                   ctx = report ctx es
               in if GC_CHECK_ERROR ctx then (ctx, config)
                  else
                    let (es, source) = source_configuration_check env source;
                        ctx = report ctx es
                    in if GC_CHECK_ERROR ctx then (ctx, config)
                       else (ctx, geocache_configuration_add_source config (Some source) (the name))))"

section \<open>The format parser\<close>

text \<open>
  The two child loops of \<^verbatim>\<open>parseFormat\<close>. \<open>Inl\<close> is the context after a \<^verbatim>\<open>set_error\<close>
  followed by \<^verbatim>\<open>return\<close>; \<open>Inr\<close> is the loop's variables at its end.
\<close>

fun parseFormat_png_children ::
  "geocache_context \<Rightarrow> string \<Rightarrow> xmlNode list \<Rightarrow> geocache_compression_type \<Rightarrow> int
     \<Rightarrow> geocache_context + geocache_compression_type \<times> int" where
  "parseFormat_png_children ctx name [] compression colors = Inr (compression, colors)"
| "parseFormat_png_children ctx name (cur_node # rest) compression colors =
     (if node_type cur_node \<noteq> XML_ELEMENT_NODE then
        parseFormat_png_children ctx name rest compression colors
      else if node_name cur_node = ''compression'' then
        (let value = xmlNodeGetContent cur_node in
         if value = ''fast'' then
           parseFormat_png_children ctx name rest GEOCACHE_COMPRESSION_FAST colors
         else if value = ''best'' then
           parseFormat_png_children ctx name rest GEOCACHE_COMPRESSION_BEST colors
         else
           Inl (set_error ctx GEOCACHE_PARSE_ERROR
                  ''unknown compression type %s for format \"%s\"'' [Fmt_s value, Fmt_s name]))
      else if node_name cur_node = ''colors'' then
        (let value = xmlNodeGetContent cur_node;
             (v, endptr) = strtol value;
             colors = int_of_long v
         in if endptr \<noteq> [] \<or> colors < 2 \<or> colors > 256 then
              Inl (set_error ctx GEOCACHE_PARSE_ERROR
                     (''failed to parse colors \"%s\" for format \"%s\"'' @
                      ''(expecting an  integer between 2 and 256 '' @
                      ''eg <colors>256</colors>'')
                     [Fmt_s value, Fmt_s name])
            else parseFormat_png_children ctx name rest compression colors)
      else
        Inl (set_error ctx GEOCACHE_PARSE_ERROR ''unknown tag %s for format \"%s\"''
               [Fmt_s (node_name cur_node), Fmt_s name]))"

fun parseFormat_jpeg_children ::
  "geocache_context \<Rightarrow> string \<Rightarrow> xmlNode list \<Rightarrow> int \<Rightarrow> geocache_context + int" where
  "parseFormat_jpeg_children ctx name [] quality = Inr quality"
| "parseFormat_jpeg_children ctx name (cur_node # rest) quality =
     (if node_type cur_node \<noteq> XML_ELEMENT_NODE then
        parseFormat_jpeg_children ctx name rest quality
      else if node_name cur_node = ''quality'' then
        (let value = xmlNodeGetContent cur_node;
             (v, endptr) = strtol value;
             quality = int_of_long v
         in if endptr \<noteq> [] \<or> quality < 1 \<or> quality > 100 then
              Inl (set_error ctx GEOCACHE_PARSE_ERROR
                     (''failed to parse quality \"%s\" for format \"%s\"'' @
                      ''(expecting an  integer between 1 and 100 '' @
                      ''eg <quality>90</quality>'')
                     [Fmt_s value, Fmt_s name])
            else parseFormat_jpeg_children ctx name rest quality)
      else parseFormat_jpeg_children ctx name rest quality)"

text \<open>The end of \<^verbatim>\<open>parseFormat\<close>: the \<^verbatim>\<open>NULL\<close> check and the registration.\<close>

definition parseFormat_register ::
  "geocache_context \<Rightarrow> geocache_cfg \<Rightarrow> string \<Rightarrow> geocache_image_format option
     \<Rightarrow> geocache_context \<times> geocache_cfg" where
  "parseFormat_register ctx config name format =
     (if format = None then
        (set_error ctx GEOCACHE_PARSE_ERROR ''failed to parse format \"%s\"'' [Fmt_s name], config)
      else (ctx, geocache_configuration_add_image_format config format name))"

definition parseFormat ::
  "geocache_context \<Rightarrow> xmlNode \<Rightarrow> geocache_cfg \<Rightarrow> geocache_context \<times> geocache_cfg" where
  "parseFormat ctx0 node config =
     (let ctx = (if node_name node \<noteq> ''format'' then
                   set_error ctx0 GEOCACHE_PARSE_ERROR ''SEVERE: <%s> is not a format tag''
                     [Fmt_s (node_name node)]
                 else ctx0);
          (rc, name, type) = extractNameAndTypeAttributes (node_properties node)
      in
        if name = None \<or> name = Some [] then
          (set_error ctx GEOCACHE_PARSE_ERROR
             ''mandatory attribute \"name\" not found in <format>'' [], config)
        else if type = None \<or> type = Some [] then
          (set_error ctx GEOCACHE_PARSE_ERROR
             ''mandatory attribute \"type\" not found in <format>'' [], config)
        else if the type = ''PNG'' then
          (case parseFormat_png_children ctx (the name) (node_children node)
                  GEOCACHE_COMPRESSION_DEFAULT (- 1) of
             Inl ctx' \<Rightarrow> (ctx', config)
           | Inr (compression, colors) \<Rightarrow>
               parseFormat_register ctx config (the name)
                 (if colors = - 1 then
                    geocache_imageio_create_png_format (the name) compression
                  else geocache_imageio_create_png_q_format (the name) compression colors))
        else if the type = ''JPEG'' then
          (case parseFormat_jpeg_children ctx (the name) (node_children node) 95 of
             Inl ctx' \<Rightarrow> (ctx', config)
           | Inr quality \<Rightarrow>
               parseFormat_register ctx config (the name)
                 (geocache_imageio_create_jpeg_format (the name) quality))
        else
          (set_error ctx GEOCACHE_PARSE_ERROR ''unknown format type %s for format \"%s\"''
             [Fmt_s (the type), Fmt_s (the name)], config))"

section \<open>The cache parser\<close>

definition parseCache ::
  "externals \<Rightarrow> geocache_context \<Rightarrow> xmlNode \<Rightarrow> geocache_cfg \<Rightarrow> geocache_context \<times> geocache_cfg" where
  "parseCache env ctx node config =
     (if node_name node \<noteq> ''cache'' then
        (set_error ctx GEOCACHE_PARSE_ERROR ''SEVERE: <%s> is not a cache tag''
           [Fmt_s (node_name node)], config)
      else
        let (rc, name, type) = extractNameAndTypeAttributes (node_properties node) in
        if name = None \<or> name = Some [] then
          (set_error ctx GEOCACHE_PARSE_ERROR
             ''mandatory attribute \"name\" not found in <cache>'' [], config)
        else if geocache_configuration_get_cache config (the name) \<noteq> None then
          (set_error ctx GEOCACHE_PARSE_ERROR ''duplicate cache with name \"%s\"''
             [Fmt_s (the name)], config)
        else if type = None \<or> type = Some [] then
          (set_error ctx GEOCACHE_PARSE_ERROR
             ''mandatory attribute \"type\" not found in <cache>'' [], config)
        else if the type \<noteq> ''disk'' then
          (set_error ctx GEOCACHE_PARSE_ERROR ''unknown cache type %s for cache \"%s\"''
             [Fmt_s (the type), Fmt_s (the name)], config)
        else
          (case geocache_cache_disk_create env of
             None \<Rightarrow>
               (set_error ctx GEOCACHE_PARSE_ERROR ''failed to parse cache \"%s\"''
                  [Fmt_s (the name)], config)
           | Some cache \<Rightarrow>
               let cache = cache\<lparr>cache_name := name\<rparr>;
                   (es, cache) = cache_configuration_parse env node cache;
                   ctx = report ctx es
               in if GC_CHECK_ERROR ctx then (ctx, config)
                  else
                    let (es, cache) = cache_configuration_check env cache;
                        ctx = report ctx es
                    in if GC_CHECK_ERROR ctx then (ctx, config)
                       else (ctx, geocache_configuration_add_cache config (Some cache) (the name))))"

section \<open>The tileset parser\<close>

text \<open>
  Reading \<^verbatim>\<open>values[i]\<close> for an error message: \<open>None\<close> when \<open>i\<close> is not below the number
  of values the extractor has stored.
\<close>

definition array_read :: "'a list \<Rightarrow> nat \<Rightarrow> 'a option" where
  "array_read values i = (if i < length values then Some (values ! i) else None)"

text \<open>
  One iteration of the child loop of \<^verbatim>\<open>parseTileset\<close>, on the tileset built so far.
  \<open>Inl\<close> is the context after a \<^verbatim>\<open>set_error\<close> followed by \<^verbatim>\<open>return\<close>.
\<close>

definition parseTileset_child ::
  "externals \<Rightarrow> geocache_context \<Rightarrow> geocache_cfg \<Rightarrow> string \<Rightarrow> xmlNode \<Rightarrow> geocache_tileset
     \<Rightarrow> geocache_context + geocache_tileset" where
  "parseTileset_child env ctx config name cur_node tileset =
     (let value = xmlNodeGetContent cur_node in
      if node_type cur_node \<noteq> XML_ELEMENT_NODE then Inr tileset
      else if node_name cur_node = ''cache'' then
        (case geocache_configuration_get_cache config value of
           None \<Rightarrow>
             Inl (set_error ctx GEOCACHE_PARSE_ERROR
                    (''tileset \"%s\" references cache \"%s\",'' @ '' but it is not configured'')
                    [Fmt_s name, Fmt_s value])
         | Some cache \<Rightarrow> Inr (tileset\<lparr>tileset_cache := Some cache\<rparr>))
      else if node_name cur_node = ''source'' then
        (case geocache_configuration_get_source config value of
           None \<Rightarrow>
             Inl (set_error ctx GEOCACHE_PARSE_ERROR
                    (''tileset \"%s\" references source \"%s\",'' @ '' but it is not configured'')
                    [Fmt_s name, Fmt_s value])
         | Some source \<Rightarrow> Inr (tileset\<lparr>tileset_source := Some source\<rparr>))
      else if node_name cur_node = ''srs'' then Inr (tileset\<lparr>tileset_srs := Some value\<rparr>)
      else if node_name cur_node = ''size'' then
        (let (rc, sizes) = geocache_util_extract_int_list env value CHR '' '' in
         if rc \<noteq> GEOCACHE_SUCCESS \<or> length sizes \<noteq> 2 then
           Inl (set_error ctx GEOCACHE_PARSE_ERROR
                  (''failed to parse size array %s.'' @
                   ''(expecting two space separated integers, eg <size>256 256</size>'')
                  [Fmt_s value])
         else Inr (tileset\<lparr>tile_sx := sizes ! 0, tile_sy := sizes ! 1\<rparr>))
      else if node_name cur_node = ''extent'' then
        (let (rc, values) = geocache_util_extract_double_list env value CHR '' '' in
         if rc \<noteq> GEOCACHE_SUCCESS \<or> length values \<noteq> 4 then
           Inl (set_error ctx GEOCACHE_PARSE_ERROR
                  (''failed to parse extent array %s.'' @
                   ''(expecting 4 space separated numbers, got %d (%f %f %f %f)'' @
                   ''eg <extent>-180 -90 180 90</extent>'')
                  [Fmt_s value, Fmt_d (int (length values)), Fmt_f (array_read values 0),
                   Fmt_f (array_read values 1), Fmt_f (array_read values 2), Fmt_f (array_read values 3)])
         else Inr (tileset\<lparr>extent := (extent tileset)
                     (0 := values ! 0, 1 := values ! 1, 2 := values ! 2, 3 := values ! 3)\<rparr>))
      else if node_name cur_node = ''resolutions'' then
        (let (rc, values) = geocache_util_extract_double_list env value CHR '' '' in
         if rc \<noteq> GEOCACHE_SUCCESS \<or> length values = 0 then
           Inl (set_error ctx GEOCACHE_PARSE_ERROR
                  (''failed to parse resolutions array %s.'' @
                   ''(expecting space separated numbers, '' @
                   ''eg <resolutions>1 2 4 8 16 32</resolutions>'')
                  [Fmt_s value])
         else Inr (tileset\<lparr>resolutions := values, levels := int (length values)\<rparr>))
      else if node_name cur_node = ''metatile'' then
        (let (rc, values) = geocache_util_extract_int_list env value CHR '' '' in
         if rc \<noteq> GEOCACHE_SUCCESS \<or> length values \<noteq> 2 then
           Inl (set_error ctx GEOCACHE_PARSE_ERROR
                  (''failed to parse metatile dimension %s.'' @
                   ''(expecting 2 space separated integers, '' @
                   ''eg <metatile>5 5</metatile>'')
                  [Fmt_s value])
         else Inr (tileset\<lparr>metasize_x := values ! 0, metasize_y := values ! 1\<rparr>))
      else if node_name cur_node = ''expires'' then
        (let (v, endptr) = strtol value in
         if endptr \<noteq> [] then
           Inl (set_error ctx GEOCACHE_PARSE_ERROR
                  (''failed to parse expires %s.'' @
                   ''(expecting an  integer, '' @
                   ''eg <expires>3600</expires>'')
                  [Fmt_s value])
         else Inr (tileset\<lparr>expires := int_of_long v\<rparr>))
      else if node_name cur_node = ''metabuffer'' then
        (let (v, endptr) = strtol value in
         if endptr \<noteq> [] then
           Inl (set_error ctx GEOCACHE_PARSE_ERROR
                  (''failed to parse metabuffer %s.'' @
                   ''(expecting an  integer, '' @
                   ''eg <metabuffer>1</metabuffer>'')
                  [Fmt_s value])
         else Inr (tileset\<lparr>metabuffer := int_of_long v\<rparr>))
      else if node_name cur_node = ''format'' then
        (case geocache_configuration_get_image_format config value of
           None \<Rightarrow>
             Inl (set_error ctx GEOCACHE_PARSE_ERROR
                    (''tileset \"%s\" references format \"%s\",'' @ '' but it is not configured'')
                    [Fmt_s name, Fmt_s value])
         | Some format \<Rightarrow> Inr (tileset\<lparr>tileset_format := Some format\<rparr>))
      else Inr tileset)"

fun parseTileset_children ::
  "externals \<Rightarrow> geocache_context \<Rightarrow> geocache_cfg \<Rightarrow> string \<Rightarrow> xmlNode list \<Rightarrow> geocache_tileset
     \<Rightarrow> geocache_context + geocache_tileset" where
  "parseTileset_children env ctx config name [] tileset = Inr tileset"
| "parseTileset_children env ctx config name (cur_node # rest) tileset =
     (case parseTileset_child env ctx config name cur_node tileset of
        Inl ctx' \<Rightarrow> Inl ctx'
      | Inr tileset' \<Rightarrow> parseTileset_children env ctx config name rest tileset')"

text \<open>
  The end of \<^verbatim>\<open>parseTileset\<close>, after the child loop: the five checks, the default
  format and the registration.
\<close>

definition parseTileset_check ::
  "geocache_context \<Rightarrow> geocache_cfg \<Rightarrow> string \<Rightarrow> geocache_tileset
     \<Rightarrow> geocache_context \<times> geocache_cfg" where
  "parseTileset_check ctx config name tileset =
     (if tileset_cache tileset = None then
        (set_error ctx GEOCACHE_PARSE_ERROR
           (''tileset \"%s\" has no cache configured.'' @ '' You must add a <cache> tag.'')
           [Fmt_s (the (tileset_name tileset))], config)
      else if tileset_source tileset = None then
        (set_error ctx GEOCACHE_PARSE_ERROR
           (''tileset \"%s\" has no source configured.'' @ '' You must add a <source> tag.'')
           [Fmt_s (the (tileset_name tileset))], config)
      else if tileset_srs tileset = None then
        (set_error ctx GEOCACHE_PARSE_ERROR
           (''tileset \"%s\" has no srs configured.'' @ '' You must add a <srs> tag.'')
           [Fmt_s (the (tileset_name tileset))], config)
      else if double_eq (extent tileset 0) (extent tileset 2) \<or>
              double_eq (extent tileset 1) (extent tileset 3) then
        (set_error ctx GEOCACHE_PARSE_ERROR
           (''tileset \"%s\" has no (or invalid) extent configured'' @
            '' You must add/correct a <extent> tag.'')
           [Fmt_s (the (tileset_name tileset))], config)
      else if levels tileset = 0 then
        (set_error ctx GEOCACHE_PARSE_ERROR
           (''tileset \"%s\" has no resolutions configured.'' @
            '' You must add a <resolutions> tag.'')
           [Fmt_s (the (tileset_name tileset))], config)
      else
        let tileset =
              (if tileset_format tileset = None \<and>
                  (metasize_x tileset \<noteq> 1 \<or> metasize_y tileset \<noteq> 1 \<or> metabuffer tileset \<noteq> 0)
               then tileset\<lparr>tileset_format := merge_format config\<rparr>
               else tileset)
        in (ctx, geocache_configuration_add_tileset config tileset name))"

definition parseTileset ::
  "externals \<Rightarrow> geocache_context \<Rightarrow> xmlNode \<Rightarrow> geocache_cfg \<Rightarrow> geocache_context \<times> geocache_cfg" where
  "parseTileset env ctx node config =
     (if node_name node \<noteq> ''tileset'' then
        (set_error ctx GEOCACHE_PARSE_ERROR ''SEVERE: <%s> is not a tileset tag''
           [Fmt_s (node_name node)], config)
      else
        let (rc, name, type) = extractNameAndTypeAttributes (node_properties node) in
        if name = None \<or> name = Some [] then
          (set_error ctx GEOCACHE_PARSE_ERROR
             ''mandatory attribute \"name\" not found in <tileset>'' [], config)
        else if geocache_configuration_get_tileset config (the name) \<noteq> None then
          (set_error ctx GEOCACHE_PARSE_ERROR ''duplicate tileset with name \"%s\"''
             [Fmt_s (the name)], config)
        else
          let tileset = (geocache_tileset_create env)\<lparr>tileset_name := name\<rparr> in
          (case parseTileset_children env ctx config (the name) (node_children node) tileset of
             Inl ctx' \<Rightarrow> (ctx', config)
           | Inr tileset' \<Rightarrow> parseTileset_check ctx config (the name) tileset'))"

section \<open>The orchestrator\<close>

text \<open>The child loop of a \<^verbatim>\<open>services\<close> block.\<close>

fun parse_services_children :: "xmlNode list \<Rightarrow> geocache_cfg \<Rightarrow> geocache_cfg" where
  "parse_services_children [] config = config"
| "parse_services_children (service_node # rest) config =
     (if node_type service_node \<noteq> XML_ELEMENT_NODE then parse_services_children rest config
      else if node_name service_node = ''wms'' then
        (let value = xmlNodeGetContent service_node in
         if value = [] \<or> value \<noteq> ''false'' then
           parse_services_children rest
             (config\<lparr>services := (services config)(GEOCACHE_SERVICE_WMS := geocache_service_wms_create)\<rparr>)
         else parse_services_children rest config)
      else if node_name service_node = ''tms'' then
        (let value = xmlNodeGetContent service_node in
         if value = [] \<or> value \<noteq> ''false'' then
           parse_services_children rest
             (config\<lparr>services := (services config)(GEOCACHE_SERVICE_TMS := geocache_service_tms_create)\<rparr>)
         else parse_services_children rest config)
      else parse_services_children rest config)"

text \<open>
  One iteration of the loop over the children of the root element. \<open>Inl\<close> is the state
  at a \<^verbatim>\<open>return\<close> out of \<^verbatim>\<open>geocache_configuration_parse\<close>; \<open>Inr\<close> is the state with which
  the loop goes on.
\<close>

definition parse_root_child ::
  "externals \<Rightarrow> string \<Rightarrow> geocache_context \<times> geocache_cfg \<Rightarrow> xmlNode
     \<Rightarrow> geocache_context \<times> geocache_cfg + geocache_context \<times> geocache_cfg" where
  "parse_root_child env filename st cur_node =
     (let (ctx, config) = st in
      if node_type cur_node \<noteq> XML_ELEMENT_NODE then Inr (ctx, config)
      else if node_name cur_node = ''source'' then
        (let (ctx', config') = parseSource env ctx cur_node config in
         if GC_CHECK_ERROR ctx' then Inl (ctx', config') else Inr (ctx', config'))
      else if node_name cur_node = ''cache'' then
        (let (ctx', config') = parseCache env ctx cur_node config in
         if GC_CHECK_ERROR ctx' then Inl (ctx', config') else Inr (ctx', config'))
      else if node_name cur_node = ''format'' then
        (let (ctx', config') = parseFormat ctx cur_node config in
         if GC_CHECK_ERROR ctx' then Inl (ctx', config') else Inr (ctx', config'))
      else if node_name cur_node = ''tileset'' then
        (let (ctx', config') = parseTileset env ctx cur_node config in
         if GC_CHECK_ERROR ctx' then Inl (ctx', config') else Inr (ctx', config'))
      else if node_name cur_node = ''services'' then
        Inr (ctx, parse_services_children (node_children cur_node) config)
      else if node_name cur_node = ''merge_format'' then
        (let value = xmlNodeGetContent cur_node in
         case geocache_configuration_get_image_format config value of
           None \<Rightarrow>
             Inl (set_error ctx GEOCACHE_PARSE_ERROR
                    ''merge_format tag references format %s but it is not configured''
                    [Fmt_s value], config)
         | Some format \<Rightarrow> Inr (ctx, config\<lparr>merge_format := Some format\<rparr>))
      else if node_name cur_node = ''lock_dir'' then
        Inr (ctx, config\<lparr>lockdir := xmlNodeGetContent cur_node\<rparr>)
      else
        Inl (set_error ctx GEOCACHE_PARSE_ERROR
               ''failed to parse geocache config file %s: unknown tag <%s>''
               [Fmt_s filename, Fmt_s (node_name cur_node)], config))"

fun parse_root_children ::
  "externals \<Rightarrow> string \<Rightarrow> geocache_context \<times> geocache_cfg \<Rightarrow> xmlNode list
     \<Rightarrow> geocache_context \<times> geocache_cfg + geocache_context \<times> geocache_cfg" where
  "parse_root_children env filename st [] = Inr st"
| "parse_root_children env filename st (cur_node # rest) =
     (case parse_root_child env filename st cur_node of
        Inl st' \<Rightarrow> Inl st'
      | Inr st' \<Rightarrow> parse_root_children env filename st' rest)"

text \<open>
  The calls made to the file system, in order, are part of the result of
  \<^verbatim>\<open>geocache_configuration_parse\<close>.
\<close>

datatype fs_call =
  Dir_make_recursive string | File_open string | File_close string | File_remove string

text \<open>The two checks that follow the loop: the lock directory, then the services.\<close>

definition parse_postconditions ::
  "externals \<Rightarrow> geocache_context \<Rightarrow> geocache_cfg \<Rightarrow> geocache_context \<times> geocache_cfg \<times> fs_call list" where
  "parse_postconditions env ctx config =
     (if \<not> apr_dir_make_recursive env (lockdir config) then
        (set_error ctx GEOCACHE_DISK_ERROR ''failed to create lock directory %s''
           [Fmt_s (lockdir config)], config, [Dir_make_recursive (lockdir config)])
      else
        let testlockfilename = lockdir config @ ''/test.lock'' in
        if \<not> apr_file_open env testlockfilename then
          (set_error ctx GEOCACHE_DISK_ERROR ''failed to create test lockfile %s''
             [Fmt_s testlockfilename], config,
           [Dir_make_recursive (lockdir config), File_open testlockfilename])
        else
          let calls = [Dir_make_recursive (lockdir config), File_open testlockfilename,
                       File_close testlockfilename, File_remove testlockfilename] in
          if services config GEOCACHE_SERVICE_WMS = None \<and>
             services config GEOCACHE_SERVICE_TMS = None then
            (set_error ctx GEOCACHE_PARSE_ERROR
               (''no services configured.'' @
                '' You must add a <services> tag with <wms/> or <tms/> children'') [],
             config, calls)
          else (ctx, config, calls))"

definition geocache_configuration_parse ::
  "externals \<Rightarrow> geocache_context \<Rightarrow> string \<Rightarrow> geocache_cfg
     \<Rightarrow> geocache_context \<times> geocache_cfg \<times> fs_call list" where
  "geocache_configuration_parse env ctx filename config =
     (case xmlReadFile env filename of
        None \<Rightarrow>
          (set_error ctx GEOCACHE_PARSE_ERROR
             ''libxml2 failed to parse file %s. Is it valid XML?'' [Fmt_s filename], config, [])
      | Some root_element \<Rightarrow>
          if node_type root_element = XML_ELEMENT_NODE \<and> node_name root_element = ''geocache'' then
            (case parse_root_children env filename (ctx, config) (node_children root_element) of
               Inl (ctx', config') \<Rightarrow> (ctx', config', [])
             | Inr (ctx', config') \<Rightarrow> parse_postconditions env ctx' config')
          else
            (set_error ctx GEOCACHE_PARSE_ERROR
               (''failed to parse geocache config file %s: '' @
                ''document does not begin with <geocache> tag. found <%s>'')
               [Fmt_s filename, Fmt_s (node_name root_element)], config, []))"

section \<open>Notions used to state the properties\<close>

text \<open>
  The attributes that the extractor reads: those before the first attribute without a
  name or without a value list. The value of an attribute name is that of the last
  attribute read under this name, and \<open>None\<close> when no attribute read has this name.
\<close>

definition readable_attributes :: "xmlAttr list \<Rightarrow> xmlAttr list" where
  "readable_attributes attrs =
     takeWhile (\<lambda>a. attr_name a \<noteq> None \<and> attr_children a \<noteq> None) attrs"

definition attribute_value :: "string \<Rightarrow> xmlAttr list \<Rightarrow> string option" where
  "attribute_value key attrs =
     (let named = filter (\<lambda>a. attr_name a = Some key) (readable_attributes attrs)
      in if named = [] then None else attr_children (last named))"

text \<open>Building documents: an element with attributes and children, a text node, and an
  element that holds one text.\<close>

definition element :: "string \<Rightarrow> (string \<times> string) list \<Rightarrow> xmlNode list \<Rightarrow> xmlNode" where
  "element tag attrs nodes =
     XmlNode XML_ELEMENT_NODE tag (map (\<lambda>(k, v). XmlAttr (Some k) (Some v)) attrs) nodes []"

definition text_node :: "string \<Rightarrow> xmlNode" where
  "text_node s = XmlNode XML_TEXT_NODE ''text'' [] [] s"

definition text_element :: "string \<Rightarrow> string \<Rightarrow> xmlNode" where
  "text_element tag s = element tag [] [text_node s]"

text \<open>
  An instance of the external collaborators, to run the parsers on concrete documents:
  the factories succeed, the variants report no error, a list is cut at its separators and
  each item read by \<open>strtol\<close>, the document reader returns a fixed document, and the file
  system calls succeed except on the paths of \<open>denied\<close>.
\<close>

fun split_tokens :: "char \<Rightarrow> string \<Rightarrow> string \<Rightarrow> string list" where
  "split_tokens sep tok [] = (if tok = [] then [] else [tok])"
| "split_tokens sep tok (c # cs) =
     (if c = sep then (if tok = [] then split_tokens sep [] cs else tok # split_tokens sep [] cs)
      else split_tokens sep (tok @ [c]) cs)"

definition sample_extract_int_list :: "string \<Rightarrow> char \<Rightarrow> geocache_status \<times> int list" where
  "sample_extract_int_list s sep =
     (let items = map strtol (split_tokens sep [] s)
      in (if list_all (\<lambda>(v, endptr). endptr = []) items then GEOCACHE_SUCCESS else GEOCACHE_FAILURE,
          map (\<lambda>(v, endptr). int_of_long v) items))"

definition sample_extract_double_list :: "string \<Rightarrow> char \<Rightarrow> geocache_status \<times> double list" where
  "sample_extract_double_list s sep =
     (let items = map strtol (split_tokens sep [] s)
      in (if list_all (\<lambda>(v, endptr). endptr = []) items then GEOCACHE_SUCCESS else GEOCACHE_FAILURE,
          map (\<lambda>(v, endptr). Finite (of_int v)) items))"

definition sample_tileset :: geocache_tileset where
  "sample_tileset =
     \<lparr>tileset_name = None, tileset_cache = None, tileset_source = None, tileset_srs = None,
      tile_sx = 256, tile_sy = 256, extent = (\<lambda>_. Finite 0), resolutions = [], levels = 0,
      metasize_x = 1, metasize_y = 1, metabuffer = 0, expires = 0, tileset_format = None\<rparr>"

definition sample_externals :: "xmlNode option \<Rightarrow> string list \<Rightarrow> externals" where
  "sample_externals doc denied =
     \<lparr>geocache_source_wms_create = Some \<lparr>source_name = None, source_srs = None\<rparr>,
      source_configuration_parse = (\<lambda>node source. ([], source)),
      source_configuration_check = (\<lambda>source. ([], source)),
      geocache_cache_disk_create = Some \<lparr>cache_name = None\<rparr>,
      cache_configuration_parse = (\<lambda>node cache. ([], cache)),
      cache_configuration_check = (\<lambda>cache. ([], cache)),
      geocache_tileset_create = sample_tileset,
      geocache_util_extract_int_list = sample_extract_int_list,
      geocache_util_extract_double_list = sample_extract_double_list,
      xmlReadFile = (\<lambda>filename. doc),
      apr_dir_make_recursive = (\<lambda>path. path \<notin> set denied),
      apr_file_open = (\<lambda>path. path \<notin> set denied)\<rparr>"

definition sample_source :: xmlNode where
  "sample_source =
     element ''source'' [(''name'', ''wms1''), (''type'', ''wms'')] [text_element ''srs'' ''EPSG:4326'']"

definition sample_cache :: xmlNode where
  "sample_cache = element ''cache'' [(''name'', ''diskcache''), (''type'', ''disk'')] []"

definition sample_tileset_children :: "xmlNode list" where
  "sample_tileset_children =
     [text_element ''cache'' ''diskcache'', text_element ''source'' ''wms1'',
      text_element ''srs'' ''EPSG:4326'', text_element ''size'' ''256 256'',
      text_element ''extent'' ''-180 -90 180 90'', text_element ''resolutions'' ''1 2 4 8'']"

definition sample_services :: xmlNode where
  "sample_services = element ''services'' [] [element ''wms'' [] []]"

definition sample_document :: xmlNode where
  "sample_document =
     element ''geocache'' []
       [element ''format'' [(''name'', ''PNG''), (''type'', ''PNG'')] [],
        sample_cache, sample_source,
        element ''tileset'' [(''name'', ''t1'')] sample_tileset_children,
        sample_services]"

definition ctx0 :: geocache_context where
  "ctx0 = \<lparr>errors = []\<rparr>"

text \<open>A configuration in which a source and a cache are registered, and one in which a
  tileset is registered too.\<close>

definition sample_base :: geocache_cfg where
  "sample_base =
     geocache_configuration_add_cache
       (geocache_configuration_add_source geocache_configuration_create
          (Some \<lparr>source_name = Some ''wms1'', source_srs = Some ''EPSG:4326''\<rparr>) ''wms1'')
       (Some \<lparr>cache_name = Some ''diskcache''\<rparr>) ''diskcache''"

definition sample_registered :: geocache_cfg where
  "sample_registered = geocache_configuration_add_tileset sample_base sample_tileset ''t1''"

text \<open>The tileset \<open>t1\<close> of the sample document with one more child, a \<open>metatile\<close>
  with the given text, and the tileset that is expected in the registry for it, given
  its metatile size and its format.\<close>

definition sample_tileset_node :: "string \<Rightarrow> xmlNode" where
  "sample_tileset_node metatile =
     element ''tileset'' [(''name'', ''t1'')]
       (sample_tileset_children @ [text_element ''metatile'' metatile])"

definition sample_parsed_tileset :: "int \<Rightarrow> geocache_image_format option \<Rightarrow> geocache_tileset" where
  "sample_parsed_tileset m format =
     \<lparr>tileset_name = Some ''t1'', tileset_cache = Some \<lparr>cache_name = Some ''diskcache''\<rparr>,
      tileset_source = Some \<lparr>source_name = Some ''wms1'', source_srs = Some ''EPSG:4326''\<rparr>,
      tileset_srs = Some ''EPSG:4326'', tile_sx = 256, tile_sy = 256,
      extent = (\<lambda>_. Finite 0)(0 := Finite (- 180), 1 := Finite (- 90), 2 := Finite 180, 3 := Finite 90),
      resolutions = [Finite 1, Finite 2, Finite 4, Finite 8], levels = 4,
      metasize_x = m, metasize_y = m, metabuffer = 0, expires = 0, tileset_format = format\<rparr>"

text \<open>Format definitions with one child: a PNG format with a \<open>colors\<close> text, a JPEG
  format with a \<open>quality\<close> text, and a format of a given type with an empty child of a
  given tag.\<close>

definition png_with_colors :: "string \<Rightarrow> xmlNode" where
  "png_with_colors s =
     element ''format'' [(''name'', ''q''), (''type'', ''PNG'')] [text_element ''colors'' s]"

definition jpeg_with_quality :: "string \<Rightarrow> xmlNode" where
  "jpeg_with_quality s =
     element ''format'' [(''name'', ''q''), (''type'', ''JPEG'')] [text_element ''quality'' s]"

definition format_with_child :: "string \<Rightarrow> string \<Rightarrow> xmlNode" where
  "format_with_child type tag =
     element ''format'' [(''name'', ''f''), (''type'', type)] [element tag [] []]"

text \<open>The child elements of a node with a given tag, and their texts, in document order.\<close>

definition is_element :: "string \<Rightarrow> xmlNode \<Rightarrow> bool" where
  "is_element tag c = (node_type c = XML_ELEMENT_NODE \<and> node_name c = tag)"

definition child_elements :: "string \<Rightarrow> xmlNode list \<Rightarrow> xmlNode list" where
  "child_elements tag nodes = filter (is_element tag) nodes"

definition child_texts :: "string \<Rightarrow> xmlNode list \<Rightarrow> string list" where
  "child_texts tag nodes = map xmlNodeGetContent (child_elements tag nodes)"

text \<open>An extent is degenerate when the test of \<^verbatim>\<open>parseTileset\<close> on it is true.\<close>

definition degenerate_extent :: "geocache_tileset \<Rightarrow> bool" where
  "degenerate_extent tileset =
     (double_eq (extent tileset 0) (extent tileset 2) \<or>
      double_eq (extent tileset 1) (extent tileset 3))"

text \<open>The tileset that \<^verbatim>\<open>parseTileset\<close> registers, given the one its child loop has built:
  lines 455 to 460.\<close>

definition with_default_format :: "geocache_cfg \<Rightarrow> geocache_tileset \<Rightarrow> geocache_tileset" where
  "with_default_format config tileset =
     (if tileset_format tileset = None \<and>
         (metasize_x tileset \<noteq> 1 \<or> metasize_y tileset \<noteq> 1 \<or> metabuffer tileset \<noteq> 0)
      then tileset\<lparr>tileset_format := merge_format config\<rparr> else tileset)"

text \<open>The lock directory probe succeeds when both of its calls do; the calls that a
  successful probe makes.\<close>

definition lock_probe_ok :: "externals \<Rightarrow> geocache_cfg \<Rightarrow> bool" where
  "lock_probe_ok env config =
     (apr_dir_make_recursive env (lockdir config) \<and>
      apr_file_open env (lockdir config @ ''/test.lock''))"

definition lock_probe_calls :: "geocache_cfg \<Rightarrow> fs_call list" where
  "lock_probe_calls config =
     [Dir_make_recursive (lockdir config), File_open (lockdir config @ ''/test.lock''),
      File_close (lockdir config @ ''/test.lock''), File_remove (lockdir config @ ''/test.lock'')]"

text \<open>A document whose only service entry is switched off, and one with a tag that is
  not known between a cache and the services.\<close>

definition services_off_document :: xmlNode where
  "services_off_document =
     element ''geocache'' [] [element ''services'' [] [text_element ''wms'' ''false'']]"

definition unknown_tag_document :: xmlNode where
  "unknown_tag_document =
     element ''geocache'' [] [sample_cache, element ''bogus'' [] [], sample_services]"


text \<open>A tileset element whose only child is a \<open>resolutions\<close> element with no text.\<close>

definition empty_resolutions_node :: xmlNode where
  "empty_resolutions_node = element ''tileset'' [(''name'', ''t1'')] [element ''resolutions'' [] []]"






section \<open>Evaluation rules\<close>

lemmas sample_defs =
  element_def text_node_def text_element_def xmlNodeGetContent_def
  sample_source_def sample_cache_def sample_tileset_children_def sample_services_def
  sample_document_def sample_externals_def sample_tileset_def ctx0_def
  sample_extract_int_list_def sample_extract_double_list_def sample_registered_def
  sample_base_def sample_tileset_node_def sample_parsed_tileset_def
  services_off_document_def unknown_tag_document_def empty_resolutions_node_def

lemmas registry_defs =
  geocache_configuration_get_source_def geocache_configuration_get_cache_def
  geocache_configuration_get_tileset_def geocache_configuration_get_image_format_def
  geocache_configuration_add_source_def geocache_configuration_add_cache_def
  geocache_configuration_add_tileset_def geocache_configuration_add_image_format_def
  geocache_configuration_create_def
  geocache_imageio_create_png_format_def geocache_imageio_create_png_q_format_def
  geocache_imageio_create_jpeg_format_def

lemmas number_defs =
  strtol_def int_of_long_def isspace_def isdigit_def LONG_MAX_def LONG_MIN_def

lemmas format_defs =
  parseFormat_def parseFormat_register_def extractNameAndTypeAttributes_def
  png_with_colors_def jpeg_with_quality_def format_with_child_def

lemmas orchestrator_defs =
  geocache_configuration_parse_def parse_postconditions_def parse_root_child_def
  geocache_service_wms_create_def geocache_service_tms_create_def GC_CHECK_ERROR_def
  lock_probe_ok_def lock_probe_calls_def


section \<open>The attribute extractor returns what is present\<close>

lemma attribute_value_Nil: "attribute_value key [] = None"
  by (simp add: attribute_value_def readable_attributes_def)

lemma attribute_value_Cons:
  "attribute_value key (a # attrs) =
     (if attr_name a \<noteq> None \<and> attr_children a \<noteq> None then
        (case attribute_value key attrs of
           Some v \<Rightarrow> Some v
         | None \<Rightarrow> if attr_name a = Some key then attr_children a else None)
      else None)"
proof -
  have r: "\<And>x. x \<in> set (readable_attributes attrs) \<Longrightarrow> attr_children x \<noteq> None"
    unfolding readable_attributes_def by (auto dest: set_takeWhileD)
  have "filter (\<lambda>a. attr_name a = Some key) (readable_attributes attrs) \<noteq> [] \<Longrightarrow>
        attr_children (last (filter (\<lambda>a. attr_name a = Some key) (readable_attributes attrs))) \<noteq> None"
    using r last_in_set by (metis filter_is_subset subsetD)
  then show ?thesis
    unfolding attribute_value_def Let_def
    by (cases "filter (\<lambda>a. attr_name a = Some key) (readable_attributes attrs) = []")
       (auto simp add: readable_attributes_def)
qed

lemma extract_loop_values:
  "extract_loop attrs name type =
     (case attribute_value ''name'' attrs of None \<Rightarrow> name | Some v \<Rightarrow> Some v,
      case attribute_value ''type'' attrs of None \<Rightarrow> type | Some v \<Rightarrow> Some v)"
proof (induction attrs arbitrary: name type)
  case Nil
  show ?case by (simp add: attribute_value_Nil)
next
  case (Cons a attrs)
  show ?case
  proof (cases "attr_name a \<noteq> None \<and> attr_children a \<noteq> None")
    case False
    then have "attr_name a = None \<or> attr_children a = None" by simp
    then show ?thesis
      by (elim disjE) (simp_all add: attribute_value_Cons)
  next
    case True
    then obtain k v where kv: "attr_name a = Some k" "attr_children a = Some v" by auto
    show ?thesis
      by (cases "attribute_value ''name'' attrs"; cases "attribute_value ''type'' attrs")
         (simp_all add: kv Cons.IH attribute_value_Cons)
  qed
qed

text \<open>
  C7, as the code has it. The extractor reports success exactly when a \<open>name\<close> and a
  \<open>type\<close> attribute are both present among the attributes it reads, and returns their
  values, which may be empty strings. Otherwise it reports failure, and the value returned
  for an attribute that is missing is \<^verbatim>\<open>NULL\<close>, which tells the caller which one is missing.
  It never tests a value for emptiness: its callers do.
\<close>

theorem extractNameAndTypeAttributes_present:
  "extractNameAndTypeAttributes attrs =
     (if attribute_value ''name'' attrs \<noteq> None \<and> attribute_value ''type'' attrs \<noteq> None
      then GEOCACHE_SUCCESS else GEOCACHE_FAILURE,
      attribute_value ''name'' attrs, attribute_value ''type'' attrs)"
  by (simp add: extractNameAndTypeAttributes_def extract_loop_values split: option.splits)

theorem extractNameAndTypeAttributes_present_witness:
  "extractNameAndTypeAttributes
     [XmlAttr (Some ''type'') (Some ''wms''), XmlAttr (Some ''id'') (Some ''7'')] =
     (GEOCACHE_FAILURE, None, Some ''wms'') \<and>
   extractNameAndTypeAttributes
     [XmlAttr (Some ''name'') (Some ''wms1''), XmlAttr (Some ''type'') (Some ''wms'')] =
     (GEOCACHE_SUCCESS, Some ''wms1'', Some ''wms'')"
  using extractNameAndTypeAttributes_present
    [of "[XmlAttr (Some ''type'') (Some ''wms''), XmlAttr (Some ''id'') (Some ''7'')]"]
    extractNameAndTypeAttributes_present
    [of "[XmlAttr (Some ''name'') (Some ''wms1''), XmlAttr (Some ''type'') (Some ''wms'')]"]
  by (simp add: attribute_value_Cons attribute_value_Nil)

text \<open>
  C7 as the specification words it fails: with an empty \<open>name\<close> and a \<open>type\<close>, the
  extractor reports success and returns the empty name.
\<close>

theorem extractNameAndTypeAttributes_empty_counterexample:
  "extractNameAndTypeAttributes
     [XmlAttr (Some ''name'') (Some ''''), XmlAttr (Some ''type'') (Some ''PNG'')] =
     (GEOCACHE_SUCCESS, Some '''', Some ''PNG'')"
  by (simp add: extractNameAndTypeAttributes_def)

section \<open>Duplicate names\<close>

text \<open>
  C1, as the code has it. A source, cache or tileset element whose name is already
  registered in its category is refused with the duplicate-name error of its category,
  naming the name; nothing else happens: the configuration is unchanged and no collaborator
  has any influence on the result. (\<^verbatim>\<open>parseFormat\<close> has no such test.)
\<close>

theorem duplicate_name_rejected:
  assumes "extractNameAndTypeAttributes (node_properties node) = (rc, Some name, type)"
    and "name \<noteq> []"
  shows "(node_name node = ''source'' \<and> sources config name \<noteq> None \<longrightarrow>
            parseSource env ctx node config =
              (set_error ctx GEOCACHE_PARSE_ERROR ''duplicate source with name \"%s\"''
                 [Fmt_s name], config)) \<and>
         (node_name node = ''cache'' \<and> caches config name \<noteq> None \<longrightarrow>
            parseCache env ctx node config =
              (set_error ctx GEOCACHE_PARSE_ERROR ''duplicate cache with name \"%s\"''
                 [Fmt_s name], config)) \<and>
         (node_name node = ''tileset'' \<and> tilesets config name \<noteq> None \<longrightarrow>
            parseTileset env ctx node config =
              (set_error ctx GEOCACHE_PARSE_ERROR ''duplicate tileset with name \"%s\"''
                 [Fmt_s name], config))"
proof (intro conjI impI)
  assume "node_name node = ''source'' \<and> sources config name \<noteq> None"
  with assms show "parseSource env ctx node config =
      (set_error ctx GEOCACHE_PARSE_ERROR ''duplicate source with name \"%s\"'' [Fmt_s name], config)"
    by (simp add: parseSource_def geocache_configuration_get_source_def)
next
  assume "node_name node = ''cache'' \<and> caches config name \<noteq> None"
  with assms show "parseCache env ctx node config =
      (set_error ctx GEOCACHE_PARSE_ERROR ''duplicate cache with name \"%s\"'' [Fmt_s name], config)"
    by (simp add: parseCache_def geocache_configuration_get_cache_def)
next
  assume "node_name node = ''tileset'' \<and> tilesets config name \<noteq> None"
  with assms show "parseTileset env ctx node config =
      (set_error ctx GEOCACHE_PARSE_ERROR ''duplicate tileset with name \"%s\"'' [Fmt_s name], config)"
    by (simp add: parseTileset_def geocache_configuration_get_tileset_def)
qed

theorem duplicate_name_rejected_witness:
  "parseSource (sample_externals None []) ctx0 sample_source sample_registered =
     (set_error ctx0 GEOCACHE_PARSE_ERROR ''duplicate source with name \"%s\"'' [Fmt_s ''wms1''],
      sample_registered) \<and>
   parseCache (sample_externals None []) ctx0 sample_cache sample_registered =
     (set_error ctx0 GEOCACHE_PARSE_ERROR ''duplicate cache with name \"%s\"'' [Fmt_s ''diskcache''],
      sample_registered) \<and>
   parseTileset (sample_externals None []) ctx0
       (element ''tileset'' [(''name'', ''t1'')] sample_tileset_children) sample_registered =
     (set_error ctx0 GEOCACHE_PARSE_ERROR ''duplicate tileset with name \"%s\"'' [Fmt_s ''t1''],
      sample_registered)"
proof -
  have s: "extractNameAndTypeAttributes (node_properties sample_source) =
             (GEOCACHE_SUCCESS, Some ''wms1'', Some ''wms'')"
    by (simp add: extractNameAndTypeAttributes_def sample_defs)
  have c: "extractNameAndTypeAttributes (node_properties sample_cache) =
             (GEOCACHE_SUCCESS, Some ''diskcache'', Some ''disk'')"
    by (simp add: extractNameAndTypeAttributes_def sample_defs)
  have t: "extractNameAndTypeAttributes
             (node_properties (element ''tileset'' [(''name'', ''t1'')] sample_tileset_children)) =
             (GEOCACHE_FAILURE, Some ''t1'', None)"
    by (simp add: extractNameAndTypeAttributes_def sample_defs)
  have r: "sources sample_registered ''wms1'' \<noteq> None"
    "caches sample_registered ''diskcache'' \<noteq> None"
    "tilesets sample_registered ''t1'' \<noteq> None"
    by (simp_all add: sample_defs registry_defs)
  have n: "node_name sample_source = ''source''" "node_name sample_cache = ''cache''"
    "node_name (element ''tileset'' [(''name'', ''t1'')] sample_tileset_children) = ''tileset''"
    by (simp_all add: sample_defs)
  show ?thesis
    using duplicate_name_rejected [OF s, where config = sample_registered]
      duplicate_name_rejected [OF c, where config = sample_registered]
      duplicate_name_rejected [OF t, where config = sample_registered] r n
    by simp
qed

text \<open>
  C1 as the specification words it fails for image formats: a second format named
  \<open>tiles\<close> is registered without any error and replaces the first.
\<close>

theorem parseFormat_duplicate_counterexample:
  "errors (fst (parseFormat ctx0 (element ''format'' [(''name'', ''tiles''), (''type'', ''PNG'')] [])
                  geocache_configuration_create)) = [] \<and>
   image_formats
     (snd (parseFormat ctx0 (element ''format'' [(''name'', ''tiles''), (''type'', ''PNG'')] [])
             geocache_configuration_create)) ''tiles'' =
     Some (PNG_FORMAT ''tiles'' GEOCACHE_COMPRESSION_DEFAULT) \<and>
   errors (fst (parseFormat ctx0 (element ''format'' [(''name'', ''tiles''), (''type'', ''JPEG'')] [])
                  (snd (parseFormat ctx0
                          (element ''format'' [(''name'', ''tiles''), (''type'', ''PNG'')] [])
                          geocache_configuration_create)))) = [] \<and>
   image_formats
     (snd (parseFormat ctx0 (element ''format'' [(''name'', ''tiles''), (''type'', ''JPEG'')] [])
             (snd (parseFormat ctx0
                     (element ''format'' [(''name'', ''tiles''), (''type'', ''PNG'')] [])
                     geocache_configuration_create)))) ''tiles'' =
     Some (JPEG_FORMAT ''tiles'' 95)"
  by (simp add: parseFormat_def parseFormat_register_def extractNameAndTypeAttributes_def
      sample_defs registry_defs)

section \<open>A node with the wrong tag\<close>

lemma parseFormat_png_children_error:
  "parseFormat_png_children ctx name nodes compression colors = Inl ctx' \<Longrightarrow>
     \<exists>msg args. ctx' = set_error ctx GEOCACHE_PARSE_ERROR msg args"
proof (induction nodes arbitrary: compression colors)
  case Nil
  then show ?case by simp
next
  case (Cons cur_node rest)
  then show ?case
    by (simp add: Let_def split: if_splits prod.splits) blast+
qed

lemma parseFormat_jpeg_children_error:
  "parseFormat_jpeg_children ctx name nodes quality = Inl ctx' \<Longrightarrow>
     \<exists>msg args. ctx' = set_error ctx GEOCACHE_PARSE_ERROR msg args"
proof (induction nodes arbitrary: quality)
  case Nil
  then show ?case by simp
next
  case (Cons cur_node rest)
  then show ?case
    by (simp add: Let_def split: if_splits prod.splits) blast+
qed


lemma parseFormat_format_tag:
  assumes "node_name node = ''format''"
  shows "fst (parseFormat ctx node config) = ctx \<or>
         (\<exists>msg args. parseFormat ctx node config = (set_error ctx GEOCACHE_PARSE_ERROR msg args, config))"
proof -
  obtain rc name type where e: "extractNameAndTypeAttributes (node_properties node) = (rc, name, type)"
    by (cases "extractNameAndTypeAttributes (node_properties node)") auto
  show ?thesis
  proof (cases "name = None \<or> name = Some [] \<or> type = None \<or> type = Some [] \<or>
                (the type \<noteq> ''PNG'' \<and> the type \<noteq> ''JPEG'')")
    case True
    then show ?thesis using assms e by (auto simp add: parseFormat_def)
  next
    case False
    show ?thesis
    proof (cases "the type = ''PNG''")
      case True
      show ?thesis
      proof (cases "parseFormat_png_children ctx (the name) (node_children node)
                      GEOCACHE_COMPRESSION_DEFAULT (- 1)")
        case (Inl ctx')
        with parseFormat_png_children_error [OF Inl] show ?thesis
          using assms e False True by (auto simp add: parseFormat_def)
      next
        case (Inr r)
        then show ?thesis
          using assms e False True
          by (auto simp add: parseFormat_def parseFormat_register_def
              geocache_imageio_create_png_format_def geocache_imageio_create_png_q_format_def
              split: prod.splits)
      qed
    next
      case notpng: False
      show ?thesis
      proof (cases "parseFormat_jpeg_children ctx (the name) (node_children node) 95")
        case (Inl ctx')
        with parseFormat_jpeg_children_error [OF Inl] show ?thesis
          using assms e False notpng by (auto simp add: parseFormat_def)
      next
        case (Inr r)
        then show ?thesis
          using assms e False notpng
          by (auto simp add: parseFormat_def parseFormat_register_def
              geocache_imageio_create_jpeg_format_def)
      qed
    qed
  qed
qed

text \<open>
  C10. On a node whose tag is not \<open>format\<close>, \<^verbatim>\<open>parseFormat\<close> sets its error and goes on:
  its result is the one it gives, from the context with this error, on the same node
  tagged \<open>format\<close>, so the attributes are extracted and the children parsed; the error is
  in the context that is returned. \<^verbatim>\<open>parseSource\<close>, \<^verbatim>\<open>parseCache\<close> and \<^verbatim>\<open>parseTileset\<close>
  return at once on a node with a wrong tag, with their error alone and the configuration
  unchanged.
\<close>

theorem wrong_tag_handling:
  "(node_name node \<noteq> ''format'' \<longrightarrow>
      parseFormat ctx node config =
        parseFormat
          (set_error ctx GEOCACHE_PARSE_ERROR ''SEVERE: <%s> is not a format tag''
             [Fmt_s (node_name node)])
          (XmlNode (node_type node) ''format'' (node_properties node) (node_children node)
             (node_content node))
          config \<and>
      (\<exists>es. errors (fst (parseFormat ctx node config)) =
         errors ctx @
         (GEOCACHE_PARSE_ERROR, ''SEVERE: <%s> is not a format tag'', [Fmt_s (node_name node)]) # es)) \<and>
   (node_name node \<noteq> ''source'' \<longrightarrow>
      parseSource env ctx node config =
        (set_error ctx GEOCACHE_PARSE_ERROR ''SEVERE: found tag %s instead of <source>''
           [Fmt_s (node_name node)], config)) \<and>
   (node_name node \<noteq> ''cache'' \<longrightarrow>
      parseCache env ctx node config =
        (set_error ctx GEOCACHE_PARSE_ERROR ''SEVERE: <%s> is not a cache tag''
           [Fmt_s (node_name node)], config)) \<and>
   (node_name node \<noteq> ''tileset'' \<longrightarrow>
      parseTileset env ctx node config =
        (set_error ctx GEOCACHE_PARSE_ERROR ''SEVERE: <%s> is not a tileset tag''
           [Fmt_s (node_name node)], config))"
proof (intro conjI impI)
  let ?ctx1 = "set_error ctx GEOCACHE_PARSE_ERROR ''SEVERE: <%s> is not a format tag''
                 [Fmt_s (node_name node)]"
  let ?node = "XmlNode (node_type node) ''format'' (node_properties node) (node_children node)
                 (node_content node)"
  assume w: "node_name node \<noteq> ''format''"
  show eq: "parseFormat ctx node config = parseFormat ?ctx1 ?node config"
    using w by (simp add: parseFormat_def Let_def cong: if_cong)
  have "node_name ?node = ''format''" by simp
  from parseFormat_format_tag [OF this, of ?ctx1 config]
  have "\<exists>es. errors (fst (parseFormat ?ctx1 ?node config)) =
         errors ctx @
         (GEOCACHE_PARSE_ERROR, ''SEVERE: <%s> is not a format tag'', [Fmt_s (node_name node)]) # es"
    by (auto simp add: set_error_def)
  then show "\<exists>es. errors (fst (parseFormat ctx node config)) =
         errors ctx @
         (GEOCACHE_PARSE_ERROR, ''SEVERE: <%s> is not a format tag'', [Fmt_s (node_name node)]) # es"
    by (simp only: eq)
next
  assume "node_name node \<noteq> ''source''"
  then show "parseSource env ctx node config =
        (set_error ctx GEOCACHE_PARSE_ERROR ''SEVERE: found tag %s instead of <source>''
           [Fmt_s (node_name node)], config)"
    by (simp add: parseSource_def)
next
  assume "node_name node \<noteq> ''cache''"
  then show "parseCache env ctx node config =
        (set_error ctx GEOCACHE_PARSE_ERROR ''SEVERE: <%s> is not a cache tag''
           [Fmt_s (node_name node)], config)"
    by (simp add: parseCache_def)
next
  assume "node_name node \<noteq> ''tileset''"
  then show "parseTileset env ctx node config =
        (set_error ctx GEOCACHE_PARSE_ERROR ''SEVERE: <%s> is not a tileset tag''
           [Fmt_s (node_name node)], config)"
    by (simp add: parseTileset_def)
qed

theorem wrong_tag_handling_witness:
  "errors (fst (parseFormat ctx0
                  (element ''image'' [(''name'', ''x''), (''type'', ''JPEG'')]
                     [text_element ''quality'' ''80''])
                  geocache_configuration_create)) =
     [(GEOCACHE_PARSE_ERROR, ''SEVERE: <%s> is not a format tag'', [Fmt_s ''image''])] \<and>
   image_formats
     (snd (parseFormat ctx0
             (element ''image'' [(''name'', ''x''), (''type'', ''JPEG'')]
                [text_element ''quality'' ''80''])
             geocache_configuration_create)) ''x'' = Some (JPEG_FORMAT ''x'' 80) \<and>
   parseSource (sample_externals None []) ctx0
       (element ''image'' [(''name'', ''x''), (''type'', ''JPEG'')] [text_element ''quality'' ''80''])
       geocache_configuration_create =
     (set_error ctx0 GEOCACHE_PARSE_ERROR ''SEVERE: found tag %s instead of <source>''
        [Fmt_s ''image''], geocache_configuration_create) \<and>
   parseCache (sample_externals None []) ctx0
       (element ''image'' [(''name'', ''x''), (''type'', ''JPEG'')] [text_element ''quality'' ''80''])
       geocache_configuration_create =
     (set_error ctx0 GEOCACHE_PARSE_ERROR ''SEVERE: <%s> is not a cache tag''
        [Fmt_s ''image''], geocache_configuration_create) \<and>
   parseTileset (sample_externals None []) ctx0
       (element ''image'' [(''name'', ''x''), (''type'', ''JPEG'')] [text_element ''quality'' ''80''])
       geocache_configuration_create =
     (set_error ctx0 GEOCACHE_PARSE_ERROR ''SEVERE: <%s> is not a tileset tag''
        [Fmt_s ''image''], geocache_configuration_create)"
proof -
  let ?node = "element ''image'' [(''name'', ''x''), (''type'', ''JPEG'')]
                 [text_element ''quality'' ''80'']"
  have n: "node_name ?node = ''image''" by (simp add: element_def)
  have f: "parseFormat
             (set_error ctx0 GEOCACHE_PARSE_ERROR ''SEVERE: <%s> is not a format tag'' [Fmt_s ''image''])
             (XmlNode (node_type ?node) ''format'' (node_properties ?node) (node_children ?node)
                (node_content ?node))
             geocache_configuration_create =
           (set_error ctx0 GEOCACHE_PARSE_ERROR ''SEVERE: <%s> is not a format tag'' [Fmt_s ''image''],
            geocache_configuration_add_image_format geocache_configuration_create
              (Some (JPEG_FORMAT ''x'' 80)) ''x'')"
    by (simp add: format_defs sample_defs registry_defs number_defs)
  show ?thesis
    using wrong_tag_handling [of ?node ctx0 geocache_configuration_create "sample_externals None []"]
    by (simp add: n f) (simp add: set_error_def ctx0_def geocache_configuration_add_image_format_def)
qed

section \<open>Unknown tags in a format definition\<close>

text \<open>
  C2 fails on the code for JPEG. A JPEG format with a child \<open>foo\<close> is registered
  with the default quality and no error is set, whereas a PNG format with the same child
  is refused with the error that names \<open>foo\<close> and the format.
\<close>

theorem parseFormat_jpeg_unknown_tag:
  "parseFormat ctx0 (format_with_child ''JPEG'' ''foo'') geocache_configuration_create =
     (ctx0, geocache_configuration_add_image_format geocache_configuration_create
              (Some (JPEG_FORMAT ''f'' 95)) ''f'') \<and>
   parseFormat ctx0 (format_with_child ''PNG'' ''foo'') geocache_configuration_create =
     (set_error ctx0 GEOCACHE_PARSE_ERROR ''unknown tag %s for format \"%s\"''
        [Fmt_s ''foo'', Fmt_s ''f''], geocache_configuration_create)"
  by (simp add: format_defs sample_defs registry_defs)

text \<open>For PNG the loop ends only when every child element is a \<open>compression\<close> or a
  \<open>colors\<close> element.\<close>

lemma parseFormat_png_children_known_tags:
  "parseFormat_png_children ctx name nodes compression colors = Inr r \<Longrightarrow>
     \<forall>c \<in> set nodes. node_type c = XML_ELEMENT_NODE \<longrightarrow>
        node_name c = ''compression'' \<or> node_name c = ''colors''"
proof (induction nodes arbitrary: compression colors)
  case Nil
  then show ?case by simp
next
  case (Cons cur_node rest)
  then show ?case
    by (auto simp add: Let_def split: if_splits prod.splits)
qed

section \<open>The ranges of \<open>colors\<close> and \<open>quality\<close>\<close>

text \<open>
  C6 fails on the code for texts whose value does not fit an \<^verbatim>\<open>int\<close>: the value
  \<^verbatim>\<open>strtol\<close> returns is cast to \<^verbatim>\<open>int\<close> before the range is tested, so that
  \<open>4294967298\<close> is accepted as 2 colors and \<open>4294967297\<close> as quality 1.
\<close>

theorem parseFormat_number_wraps:
  "parseFormat ctx0 (png_with_colors ''4294967298'') geocache_configuration_create =
     (ctx0, geocache_configuration_add_image_format geocache_configuration_create
              (Some (PNG_Q_FORMAT ''q'' GEOCACHE_COMPRESSION_DEFAULT 2)) ''q'') \<and>
   parseFormat ctx0 (jpeg_with_quality ''4294967297'') geocache_configuration_create =
     (ctx0, geocache_configuration_add_image_format geocache_configuration_create
              (Some (JPEG_FORMAT ''q'' 1)) ''q'')"
  by (simp add: format_defs sample_defs registry_defs number_defs)

text \<open>The boundary values are treated as the specification says.\<close>

lemma colors_boundaries:
  "fst (parseFormat ctx0 (png_with_colors ''2'') geocache_configuration_create) = ctx0"
  "fst (parseFormat ctx0 (png_with_colors ''256'') geocache_configuration_create) = ctx0"
  "fst (parseFormat ctx0 (png_with_colors ''1'') geocache_configuration_create) \<noteq> ctx0"
  "fst (parseFormat ctx0 (png_with_colors ''257'') geocache_configuration_create) \<noteq> ctx0"
  "fst (parseFormat ctx0 (png_with_colors ''12a'') geocache_configuration_create) \<noteq> ctx0"
  "fst (parseFormat ctx0 (png_with_colors ''many'') geocache_configuration_create) \<noteq> ctx0"
  "fst (parseFormat ctx0 (jpeg_with_quality ''1'') geocache_configuration_create) = ctx0"
  "fst (parseFormat ctx0 (jpeg_with_quality ''100'') geocache_configuration_create) = ctx0"
  "fst (parseFormat ctx0 (jpeg_with_quality ''0'') geocache_configuration_create) \<noteq> ctx0"
  "fst (parseFormat ctx0 (jpeg_with_quality ''101'') geocache_configuration_create) \<noteq> ctx0"
  by (simp_all add: format_defs sample_defs registry_defs number_defs set_error_def)

section \<open>The tileset parser, step by step\<close>

lemma set_error_neq:
  "set_error ctx code msg args \<noteq> ctx" "ctx \<noteq> set_error ctx code msg args"
proof -
  have "errors (set_error ctx code msg args) \<noteq> errors ctx"
    by (simp add: set_error_def)
  then show "set_error ctx code msg args \<noteq> ctx" "ctx \<noteq> set_error ctx code msg args"
    by auto
qed

lemma parseTileset_child_error:
  "parseTileset_child env ctx config name cur_node tileset = Inl ctx' \<Longrightarrow>
     \<exists>msg args. ctx' = set_error ctx GEOCACHE_PARSE_ERROR msg args"
  unfolding parseTileset_child_def Let_def
  by (simp split: if_splits option.splits prod.splits) blast+

lemma parseTileset_child_format:
  "parseTileset_child env ctx config name cur_node tileset = Inr tileset' \<Longrightarrow>
   \<not> is_element ''format'' cur_node \<Longrightarrow>
     tileset_format tileset' = tileset_format tileset"
  unfolding parseTileset_child_def Let_def is_element_def
  by (auto split: if_splits option.splits prod.splits)

lemma parseTileset_child_other:
  "parseTileset_child env ctx config name cur_node tileset = Inr tileset' \<Longrightarrow>
   \<not> is_element ''resolutions'' cur_node \<Longrightarrow>
     resolutions tileset' = resolutions tileset \<and> levels tileset' = levels tileset"
  unfolding parseTileset_child_def Let_def is_element_def
  by (auto split: if_splits option.splits prod.splits)

lemma parseTileset_child_resolutions:
  "parseTileset_child env ctx config name cur_node tileset = Inr tileset' \<Longrightarrow>
   is_element ''resolutions'' cur_node \<Longrightarrow>
     fst (geocache_util_extract_double_list env (xmlNodeGetContent cur_node) CHR '' '') = GEOCACHE_SUCCESS \<and>
     snd (geocache_util_extract_double_list env (xmlNodeGetContent cur_node) CHR '' '') \<noteq> [] \<and>
     resolutions tileset' = snd (geocache_util_extract_double_list env (xmlNodeGetContent cur_node) CHR '' '') \<and>
     levels tileset' = int (length (resolutions tileset'))"
  unfolding parseTileset_child_def Let_def is_element_def
  by (auto split: if_splits option.splits prod.splits)

lemma parseTileset_children_error:
  "parseTileset_children env ctx config name nodes tileset = Inl ctx' \<Longrightarrow>
     \<exists>msg args. ctx' = set_error ctx GEOCACHE_PARSE_ERROR msg args"
proof (induction nodes arbitrary: tileset)
  case Nil
  then show ?case by simp
next
  case (Cons cur_node rest)
  show ?case
  proof (cases "parseTileset_child env ctx config name cur_node tileset")
    case (Inl c)
    with Cons.prems parseTileset_child_error [OF Inl] show ?thesis by simp
  next
    case (Inr t)
    with Cons.prems Cons.IH [of t] show ?thesis by simp
  qed
qed

lemma parseTileset_children_format:
  "parseTileset_children env ctx config name nodes tileset = Inr tileset' \<Longrightarrow>
   child_elements ''format'' nodes = [] \<Longrightarrow>
     tileset_format tileset' = tileset_format tileset"
proof (induction nodes arbitrary: tileset)
  case Nil
  then show ?case by simp
next
  case (Cons cur_node rest)
  from Cons.prems(2)
  have here: "\<not> is_element ''format'' cur_node"
    and later: "child_elements ''format'' rest = []"
    by (auto simp add: child_elements_def split: if_splits)
  show ?case
  proof (cases "parseTileset_child env ctx config name cur_node tileset")
    case (Inl c)
    with Cons.prems(1) show ?thesis by simp
  next
    case (Inr t)
    with Cons.prems(1) have "parseTileset_children env ctx config name rest t = Inr tileset'"
      by simp
    from Cons.IH [OF this later] parseTileset_child_format [OF Inr here]
    show ?thesis by simp
  qed
qed

lemma parseTileset_children_resolutions:
  assumes "parseTileset_children env ctx config name nodes tileset = Inr tileset'"
  shows "(\<forall>v \<in> set (child_texts ''resolutions'' nodes).
            fst (geocache_util_extract_double_list env v CHR '' '') = GEOCACHE_SUCCESS \<and>
            snd (geocache_util_extract_double_list env v CHR '' '') \<noteq> []) \<and>
         (if child_texts ''resolutions'' nodes = [] then
            resolutions tileset' = resolutions tileset \<and> levels tileset' = levels tileset
          else
            resolutions tileset' =
              snd (geocache_util_extract_double_list env (last (child_texts ''resolutions'' nodes)) CHR '' '') \<and>
            levels tileset' = int (length (resolutions tileset')))"
  using assms
proof (induction nodes arbitrary: tileset)
  case Nil
  then show ?case by (simp add: child_texts_def child_elements_def)
next
  case (Cons cur_node rest)
  show ?case
  proof (cases "parseTileset_child env ctx config name cur_node tileset")
    case (Inl c)
    with Cons.prems show ?thesis by simp
  next
    case (Inr t)
    with Cons.prems have rest: "parseTileset_children env ctx config name rest t = Inr tileset'"
      by simp
    note IH = Cons.IH [OF rest]
    show ?thesis
    proof (cases "is_element ''resolutions'' cur_node")
      case True
      from parseTileset_child_resolutions [OF Inr True] IH True
      show ?thesis
        by (simp add: child_texts_def child_elements_def)
    next
      case False
      from parseTileset_child_other [OF Inr False] IH False
      show ?thesis
        by (simp add: child_texts_def child_elements_def)
    qed
  qed
qed

lemma parseTileset_check_cases:
  "(\<exists>msg args. parseTileset_check ctx config name tileset =
       (set_error ctx GEOCACHE_PARSE_ERROR msg args, config)) \<or>
   (tileset_cache tileset \<noteq> None \<and> tileset_source tileset \<noteq> None \<and> tileset_srs tileset \<noteq> None \<and>
    \<not> degenerate_extent tileset \<and> levels tileset \<noteq> 0 \<and>
    parseTileset_check ctx config name tileset =
      (ctx, geocache_configuration_add_tileset config (with_default_format config tileset) name))"
  unfolding parseTileset_check_def degenerate_extent_def with_default_format_def Let_def
  by (simp only: split: if_splits) blast

lemma parseTileset_cases:
  "(\<exists>msg args. parseTileset env ctx node config =
       (set_error ctx GEOCACHE_PARSE_ERROR msg args, config)) \<or>
   (\<exists>name tileset.
      node_name node = ''tileset'' \<and>
      attribute_value ''name'' (node_properties node) = Some name \<and>
      parseTileset_children env ctx config name (node_children node)
        ((geocache_tileset_create env)\<lparr>tileset_name := Some name\<rparr>) = Inr tileset \<and>
      tileset_cache tileset \<noteq> None \<and> tileset_source tileset \<noteq> None \<and> tileset_srs tileset \<noteq> None \<and>
      \<not> degenerate_extent tileset \<and> levels tileset \<noteq> 0 \<and>
      parseTileset env ctx node config =
        (ctx, geocache_configuration_add_tileset config (with_default_format config tileset) name))"
proof -
  obtain rc name type
    where e: "extractNameAndTypeAttributes (node_properties node) = (rc, name, type)"
    by (cases "extractNameAndTypeAttributes (node_properties node)") auto
  then have name: "name = attribute_value ''name'' (node_properties node)"
    by (auto simp add: extractNameAndTypeAttributes_def extract_loop_values
        split: if_splits option.splits)
  show ?thesis
  proof (cases "node_name node \<noteq> ''tileset'' \<or> name = None \<or> name = Some [] \<or>
                geocache_configuration_get_tileset config (the name) \<noteq> None")
    case True
    then show ?thesis using e by (auto simp add: parseTileset_def)
  next
    case False
    then obtain n where n: "name = Some n" by auto
    let ?t = "(geocache_tileset_create env)\<lparr>tileset_name := Some n\<rparr>"
    show ?thesis
    proof (cases "parseTileset_children env ctx config n (node_children node) ?t")
      case (Inl ctx')
      from parseTileset_children_error [OF Inl] Inl False e n
      show ?thesis by (auto simp add: parseTileset_def)
    next
      case (Inr tileset)
      have p: "parseTileset env ctx node config = parseTileset_check ctx config n tileset"
        using Inr False e n by (simp add: parseTileset_def)
      from parseTileset_check_cases [of ctx config n tileset]
      show ?thesis
      proof
        assume "\<exists>msg args. parseTileset_check ctx config n tileset =
                  (set_error ctx GEOCACHE_PARSE_ERROR msg args, config)"
        then show ?thesis using p by simp
      next
        assume "tileset_cache tileset \<noteq> None \<and> tileset_source tileset \<noteq> None \<and>
                tileset_srs tileset \<noteq> None \<and> \<not> degenerate_extent tileset \<and> levels tileset \<noteq> 0 \<and>
                parseTileset_check ctx config n tileset =
                  (ctx, geocache_configuration_add_tileset config (with_default_format config tileset) n)"
        then show ?thesis using p Inr False n name by auto
      qed
    qed
  qed
qed

text \<open>The tileset of the sample document, with a metatile of 2 by 2 and of 1 by 1.\<close>

lemma sample_tileset_node_parsed:
  "parseTileset (sample_externals None []) ctx0 (sample_tileset_node ''2 2'') sample_base =
     (ctx0, geocache_configuration_add_tileset sample_base
              (sample_parsed_tileset 2 (Some (PNG_FORMAT ''PNG'' GEOCACHE_COMPRESSION_FAST))) ''t1'')"
  by (simp add: parseTileset_def parseTileset_check_def parseTileset_child_def
      extractNameAndTypeAttributes_def sample_defs registry_defs number_defs double_eq_def)

lemma sample_tileset_node_parsed_1:
  "parseTileset (sample_externals None []) ctx0 (sample_tileset_node ''1 1'') sample_base =
     (ctx0, geocache_configuration_add_tileset sample_base (sample_parsed_tileset 1 None) ''t1'')"
  by (simp add: parseTileset_def parseTileset_check_def parseTileset_child_def
      extractNameAndTypeAttributes_def sample_defs registry_defs number_defs double_eq_def)

lemma parseTileset_children_format_unset:
  assumes "parseTileset_children env ctx config name nodes
             ((geocache_tileset_create env)\<lparr>tileset_name := Some name\<rparr>) = Inr tileset"
    and "tileset_format (geocache_tileset_create env) = None"
    and "child_elements ''format'' nodes = []"
  shows "tileset_format tileset = None"
  using parseTileset_children_format [OF assms(1) assms(3)] assms(2) by simp

section \<open>The default format of a tileset\<close>

text \<open>
  C3. Let \<^verbatim>\<open>parseTileset\<close> end without an error on a tileset element that has no
  \<open>format\<close> child, the tileset factory leaving the format unset. Then the tileset is
  registered under its name, and its format is the merge format of the configuration if
  its metatile is not 1 by 1 or its metabuffer is not 0, and is unset otherwise.
\<close>

theorem tileset_default_format:
  assumes "parseTileset env ctx node config = (ctx, config')"
    and "tileset_format (geocache_tileset_create env) = None"
    and "child_elements ''format'' (node_children node) = []"
  shows "\<exists>name t. attribute_value ''name'' (node_properties node) = Some name \<and>
           tilesets config' name = Some t \<and>
           tileset_format t =
             (if metasize_x t \<noteq> 1 \<or> metasize_y t \<noteq> 1 \<or> metabuffer t \<noteq> 0
              then merge_format config else None)"
proof -
  from parseTileset_cases [of env ctx node config] assms(1)
  obtain name tileset where
    n: "attribute_value ''name'' (node_properties node) = Some name" and
    c: "parseTileset_children env ctx config name (node_children node)
          ((geocache_tileset_create env)\<lparr>tileset_name := Some name\<rparr>) = Inr tileset" and
    r: "config' = geocache_configuration_add_tileset config (with_default_format config tileset) name"
    by (auto simp add: set_error_neq)
  have "tileset_format tileset = None"
    by (rule parseTileset_children_format_unset [OF c assms(2) assms(3)])
  then have "tileset_format (with_default_format config tileset) =
      (if metasize_x (with_default_format config tileset) \<noteq> 1 \<or>
          metasize_y (with_default_format config tileset) \<noteq> 1 \<or>
          metabuffer (with_default_format config tileset) \<noteq> 0
       then merge_format config else None)"
    by (auto simp add: with_default_format_def)
  with n r show ?thesis
    by (simp add: geocache_configuration_add_tileset_def)
qed

theorem tileset_default_format_witness:
  "parseTileset (sample_externals None []) ctx0 (sample_tileset_node ''2 2'') sample_base =
     (ctx0, geocache_configuration_add_tileset sample_base
              (sample_parsed_tileset 2 (Some (PNG_FORMAT ''PNG'' GEOCACHE_COMPRESSION_FAST))) ''t1'') \<and>
   parseTileset (sample_externals None []) ctx0 (sample_tileset_node ''1 1'') sample_base =
     (ctx0, geocache_configuration_add_tileset sample_base (sample_parsed_tileset 1 None) ''t1'') \<and>
   tileset_format (geocache_tileset_create (sample_externals None [])) = None \<and>
   child_elements ''format'' (node_children (sample_tileset_node ''2 2'')) = [] \<and>
   child_elements ''format'' (node_children (sample_tileset_node ''1 1'')) = [] \<and>
   merge_format sample_base = Some (PNG_FORMAT ''PNG'' GEOCACHE_COMPRESSION_FAST) \<and>
   (\<exists>name t. attribute_value ''name'' (node_properties (sample_tileset_node ''2 2'')) = Some name \<and>
      tilesets (geocache_configuration_add_tileset sample_base
                  (sample_parsed_tileset 2 (Some (PNG_FORMAT ''PNG'' GEOCACHE_COMPRESSION_FAST))) ''t1'')
        name = Some t \<and>
      metasize_x t = 2 \<and> tileset_format t = merge_format sample_base) \<and>
   (\<exists>name t. attribute_value ''name'' (node_properties (sample_tileset_node ''1 1'')) = Some name \<and>
      tilesets (geocache_configuration_add_tileset sample_base (sample_parsed_tileset 1 None) ''t1'')
        name = Some t \<and>
      metasize_x t = 1 \<and> metasize_y t = 1 \<and> metabuffer t = 0 \<and> tileset_format t = None)"
proof -
  have f: "tileset_format (geocache_tileset_create (sample_externals None [])) = None"
    by (simp add: sample_defs)
  have e: "child_elements ''format'' (node_children (sample_tileset_node ''2 2'')) = []"
    "child_elements ''format'' (node_children (sample_tileset_node ''1 1'')) = []"
    by (simp_all add: child_elements_def is_element_def sample_defs)
  have m: "merge_format sample_base = Some (PNG_FORMAT ''PNG'' GEOCACHE_COMPRESSION_FAST)"
    by (simp add: sample_defs registry_defs)
  have a: "attribute_value ''name'' (node_properties (sample_tileset_node ''2 2'')) = Some ''t1''"
    "attribute_value ''name'' (node_properties (sample_tileset_node ''1 1'')) = Some ''t1''"
    by (simp_all add: attribute_value_Cons attribute_value_Nil sample_defs)
  have v: "metasize_x (sample_parsed_tileset 2 (Some (PNG_FORMAT ''PNG'' GEOCACHE_COMPRESSION_FAST))) = 2"
    "metasize_x (sample_parsed_tileset 1 None) = 1" "metasize_y (sample_parsed_tileset 1 None) = 1"
    "metabuffer (sample_parsed_tileset 1 None) = 0"
    by (simp_all add: sample_defs)
  from tileset_default_format [OF sample_tileset_node_parsed f e(1)]
    tileset_default_format [OF sample_tileset_node_parsed_1 f e(2)]
    sample_tileset_node_parsed sample_tileset_node_parsed_1 f e m a v
  show ?thesis by (auto simp add: geocache_configuration_add_tileset_def)
qed

section \<open>The resolutions of a tileset\<close>

text \<open>
  C4. The tileset factory leaving \<open>levels\<close> at 0: a tileset element with no
  \<open>resolutions\<close> child, or with one for whose text the list extractor fails or stores no
  value, is refused with a parse error and the configuration is unchanged. When
  \<^verbatim>\<open>parseTileset\<close> ends without an error, the registered tileset holds the values that the
  extractor has stored for the text of the last \<open>resolutions\<close> child, in their order,
  there is at least one, and \<open>levels\<close> is their number.
\<close>

theorem tileset_resolutions:
  assumes "parseTileset env ctx node config = (ctx', config')"
    and "levels (geocache_tileset_create env) = 0"
  shows "(child_texts ''resolutions'' (node_children node) = [] \<or>
          (\<exists>v \<in> set (child_texts ''resolutions'' (node_children node)).
             fst (geocache_util_extract_double_list env v CHR '' '') \<noteq> GEOCACHE_SUCCESS \<or>
             snd (geocache_util_extract_double_list env v CHR '' '') = []) \<longrightarrow>
            config' = config \<and> (\<exists>msg args. ctx' = set_error ctx GEOCACHE_PARSE_ERROR msg args)) \<and>
         (ctx' = ctx \<longrightarrow>
            (\<exists>name t. attribute_value ''name'' (node_properties node) = Some name \<and>
               tilesets config' name = Some t \<and>
               resolutions t =
                 snd (geocache_util_extract_double_list env
                        (last (child_texts ''resolutions'' (node_children node))) CHR '' '') \<and>
               resolutions t \<noteq> [] \<and>
               levels t = int (length (resolutions t))))"
proof -
  let ?texts = "child_texts ''resolutions'' (node_children node)"
  from parseTileset_cases [of env ctx node config]
  show ?thesis
  proof
    assume "\<exists>msg args. parseTileset env ctx node config =
              (set_error ctx GEOCACHE_PARSE_ERROR msg args, config)"
    with assms(1) show ?thesis by (auto simp add: set_error_neq)
  next
    assume "\<exists>name tileset.
      node_name node = ''tileset'' \<and>
      attribute_value ''name'' (node_properties node) = Some name \<and>
      parseTileset_children env ctx config name (node_children node)
        ((geocache_tileset_create env)\<lparr>tileset_name := Some name\<rparr>) = Inr tileset \<and>
      tileset_cache tileset \<noteq> None \<and> tileset_source tileset \<noteq> None \<and> tileset_srs tileset \<noteq> None \<and>
      \<not> degenerate_extent tileset \<and> levels tileset \<noteq> 0 \<and>
      parseTileset env ctx node config =
        (ctx, geocache_configuration_add_tileset config (with_default_format config tileset) name)"
    then obtain name tileset where
      n: "attribute_value ''name'' (node_properties node) = Some name" and
      c: "parseTileset_children env ctx config name (node_children node)
            ((geocache_tileset_create env)\<lparr>tileset_name := Some name\<rparr>) = Inr tileset" and
      l: "levels tileset \<noteq> 0" and
      r: "parseTileset env ctx node config =
            (ctx, geocache_configuration_add_tileset config (with_default_format config tileset) name)"
      by blast
    note loop = parseTileset_children_resolutions [OF c]
    have texts: "?texts \<noteq> []"
      using loop l assms(2) by (auto split: if_splits)
    have all: "\<forall>v \<in> set ?texts.
                 fst (geocache_util_extract_double_list env v CHR '' '') = GEOCACHE_SUCCESS \<and>
                 snd (geocache_util_extract_double_list env v CHR '' '') \<noteq> []"
      using loop by blast
    have res: "resolutions tileset =
                 snd (geocache_util_extract_double_list env (last ?texts) CHR '' '')"
      and lev: "levels tileset = int (length (resolutions tileset))"
      using loop texts by simp_all
    have ne: "resolutions tileset \<noteq> []"
      using all texts res last_in_set [OF texts] by simp
    have w: "resolutions (with_default_format config tileset) = resolutions tileset"
      "levels (with_default_format config tileset) = levels tileset"
      by (simp_all add: with_default_format_def)
    have first: "\<not> (?texts = [] \<or>
          (\<exists>v \<in> set ?texts.
             fst (geocache_util_extract_double_list env v CHR '' '') \<noteq> GEOCACHE_SUCCESS \<or>
             snd (geocache_util_extract_double_list env v CHR '' '') = []))"
      using texts all by blast
    have second: "\<exists>name t. attribute_value ''name'' (node_properties node) = Some name \<and>
               tilesets config' name = Some t \<and>
               resolutions t = snd (geocache_util_extract_double_list env (last ?texts) CHR '' '') \<and>
               resolutions t \<noteq> [] \<and>
               levels t = int (length (resolutions t))"
      using n r assms(1) res ne lev w
      by (auto simp add: geocache_configuration_add_tileset_def)
    from first second show ?thesis by blast
  qed
qed

theorem tileset_resolutions_witness:
  "parseTileset (sample_externals None []) ctx0 (sample_tileset_node ''2 2'') sample_base =
     (ctx0, geocache_configuration_add_tileset sample_base
              (sample_parsed_tileset 2 (Some (PNG_FORMAT ''PNG'' GEOCACHE_COMPRESSION_FAST))) ''t1'') \<and>
   levels (geocache_tileset_create (sample_externals None [])) = 0 \<and>
   child_texts ''resolutions'' (node_children (sample_tileset_node ''2 2'')) = [''1 2 4 8''] \<and>
   geocache_util_extract_double_list (sample_externals None []) ''1 2 4 8'' CHR '' '' =
     (GEOCACHE_SUCCESS, [Finite 1, Finite 2, Finite 4, Finite 8]) \<and>
   (\<exists>t. tilesets (geocache_configuration_add_tileset sample_base
                    (sample_parsed_tileset 2 (Some (PNG_FORMAT ''PNG'' GEOCACHE_COMPRESSION_FAST))) ''t1'')
           ''t1'' = Some t \<and>
        resolutions t = [Finite 1, Finite 2, Finite 4, Finite 8] \<and> levels t = 4) \<and>
   child_texts ''resolutions'' (node_children empty_resolutions_node) = [[]] \<and>
   geocache_util_extract_double_list (sample_externals None []) [] CHR '' '' = (GEOCACHE_SUCCESS, []) \<and>
   snd (parseTileset (sample_externals None []) ctx0 empty_resolutions_node sample_base) = sample_base \<and>
   (\<exists>msg args. fst (parseTileset (sample_externals None []) ctx0 empty_resolutions_node sample_base) =
      set_error ctx0 GEOCACHE_PARSE_ERROR msg args)"
proof -
  let ?env = "sample_externals None []"
  have l: "levels (geocache_tileset_create ?env) = 0"
    by (simp add: sample_defs)
  have t: "child_texts ''resolutions'' (node_children (sample_tileset_node ''2 2'')) = [''1 2 4 8'']"
    "child_texts ''resolutions'' (node_children empty_resolutions_node) = [[]]"
    by (simp_all add: child_texts_def child_elements_def is_element_def sample_defs)
  have x: "geocache_util_extract_double_list ?env ''1 2 4 8'' CHR '' '' =
             (GEOCACHE_SUCCESS, [Finite 1, Finite 2, Finite 4, Finite 8])"
    "geocache_util_extract_double_list ?env [] CHR '' '' = (GEOCACHE_SUCCESS, [])"
    by (simp_all add: sample_defs number_defs)
  have a: "attribute_value ''name'' (node_properties (sample_tileset_node ''2 2'')) = Some ''t1''"
    by (simp add: attribute_value_Cons attribute_value_Nil sample_defs)
  have p: "parseTileset ?env ctx0 empty_resolutions_node sample_base =
             (fst (parseTileset ?env ctx0 empty_resolutions_node sample_base),
              snd (parseTileset ?env ctx0 empty_resolutions_node sample_base))"
    by simp
  from tileset_resolutions [OF sample_tileset_node_parsed l] sample_tileset_node_parsed l t(1) x(1) a
  have ok: "\<exists>t. tilesets (geocache_configuration_add_tileset sample_base
                    (sample_parsed_tileset 2 (Some (PNG_FORMAT ''PNG'' GEOCACHE_COMPRESSION_FAST))) ''t1'')
           ''t1'' = Some t \<and>
        resolutions t = [Finite 1, Finite 2, Finite 4, Finite 8] \<and> levels t = 4"
    by auto
  from tileset_resolutions [OF p l] t(2) x(2)
  have bad: "snd (parseTileset ?env ctx0 empty_resolutions_node sample_base) = sample_base \<and>
     (\<exists>msg args. fst (parseTileset ?env ctx0 empty_resolutions_node sample_base) =
        set_error ctx0 GEOCACHE_PARSE_ERROR msg args)"
    by simp
  from ok bad sample_tileset_node_parsed l t x show ?thesis by simp
qed

section \<open>The extent of a tileset\<close>

text \<open>
  C5. Whatever its other members are, a tileset whose extent is degenerate
  (\<^verbatim>\<open>extent[0] == extent[2]\<close> or \<^verbatim>\<open>extent[1] == extent[3]\<close>) fails the checks of
  \<^verbatim>\<open>parseTileset\<close> with a parse error and the configuration is unchanged; and a tileset
  that \<^verbatim>\<open>parseTileset\<close> registers has an extent that is not degenerate.
\<close>

theorem degenerate_extent_rejected:
  "(degenerate_extent tileset \<longrightarrow>
      (\<exists>msg args. parseTileset_check ctx config name tileset =
         (set_error ctx GEOCACHE_PARSE_ERROR msg args, config))) \<and>
   (parseTileset env ctx node config = (ctx, config') \<longrightarrow>
      (\<exists>name t. attribute_value ''name'' (node_properties node) = Some name \<and>
         tilesets config' name = Some t \<and> \<not> degenerate_extent t))"
proof (intro conjI impI)
  assume "degenerate_extent tileset"
  with parseTileset_check_cases [of ctx config name tileset]
  show "\<exists>msg args. parseTileset_check ctx config name tileset =
          (set_error ctx GEOCACHE_PARSE_ERROR msg args, config)"
    by blast
next
  assume p: "parseTileset env ctx node config = (ctx, config')"
  from parseTileset_cases [of env ctx node config] p
  obtain name tileset where
    n: "attribute_value ''name'' (node_properties node) = Some name" and
    d: "\<not> degenerate_extent tileset" and
    r: "config' = geocache_configuration_add_tileset config (with_default_format config tileset) name"
    by (auto simp add: set_error_neq)
  have "degenerate_extent (with_default_format config tileset) = degenerate_extent tileset"
    by (simp add: with_default_format_def degenerate_extent_def)
  with n d r show "\<exists>name t. attribute_value ''name'' (node_properties node) = Some name \<and>
         tilesets config' name = Some t \<and> \<not> degenerate_extent t"
    by (simp add: geocache_configuration_add_tileset_def)
qed

theorem degenerate_extent_rejected_witness:
  "degenerate_extent
     ((sample_parsed_tileset 1 None)\<lparr>extent := (\<lambda>_. Finite 0)
        (0 := Finite 10, 1 := Finite 0, 2 := Finite 10, 3 := Finite 5)\<rparr>) \<and>
   parseTileset_check ctx0 sample_base ''t1''
     ((sample_parsed_tileset 1 None)\<lparr>extent := (\<lambda>_. Finite 0)
        (0 := Finite 10, 1 := Finite 0, 2 := Finite 10, 3 := Finite 5)\<rparr>) =
     (set_error ctx0 GEOCACHE_PARSE_ERROR
        (''tileset \"%s\" has no (or invalid) extent configured'' @
         '' You must add/correct a <extent> tag.'') [Fmt_s ''t1''], sample_base) \<and>
   parseTileset (sample_externals None []) ctx0 (sample_tileset_node ''1 1'') sample_base =
     (ctx0, geocache_configuration_add_tileset sample_base (sample_parsed_tileset 1 None) ''t1'') \<and>
   \<not> degenerate_extent (sample_parsed_tileset 1 None)"
proof -
  let ?t = "(sample_parsed_tileset 1 None)\<lparr>extent := (\<lambda>_. Finite 0)
        (0 := Finite 10, 1 := Finite 0, 2 := Finite 10, 3 := Finite 5)\<rparr>"
  have d: "degenerate_extent ?t"
    by (simp add: degenerate_extent_def double_eq_def sample_defs)
  have a: "attribute_value ''name'' (node_properties (sample_tileset_node ''1 1'')) = Some ''t1''"
    by (simp add: attribute_value_Cons attribute_value_Nil sample_defs)
  have c: "parseTileset_check ctx0 sample_base ''t1'' ?t =
     (set_error ctx0 GEOCACHE_PARSE_ERROR
        (''tileset \"%s\" has no (or invalid) extent configured'' @
         '' You must add/correct a <extent> tag.'') [Fmt_s ''t1''], sample_base)"
    by (simp add: parseTileset_check_def double_eq_def sample_defs)
  from degenerate_extent_rejected [where tileset = ?t and ctx = ctx0 and config = sample_base
      and name = "''t1''" and env = "sample_externals None []"
      and node = "sample_tileset_node ''1 1''"
      and config' = "geocache_configuration_add_tileset sample_base (sample_parsed_tileset 1 None) ''t1''"]
    sample_tileset_node_parsed_1 d a c
  show ?thesis by (auto simp add: geocache_configuration_add_tileset_def)
qed

section \<open>Services\<close>

lemma parse_services_children_wms:
  "services (parse_services_children nodes config) GEOCACHE_SERVICE_WMS = None \<longleftrightarrow>
     services config GEOCACHE_SERVICE_WMS = None \<and>
     (\<forall>n \<in> set (child_elements ''wms'' nodes). xmlNodeGetContent n = ''false'')"
proof (induction nodes arbitrary: config)
  case Nil
  show ?case by (simp add: child_elements_def)
next
  case (Cons service_node rest)
  show ?case
    by (auto simp add: Cons.IH Let_def child_elements_def is_element_def
        geocache_service_wms_create_def geocache_service_tms_create_def)
qed

lemma parse_services_children_tms:
  "services (parse_services_children nodes config) GEOCACHE_SERVICE_TMS = None \<longleftrightarrow>
     services config GEOCACHE_SERVICE_TMS = None \<and>
     (\<forall>n \<in> set (child_elements ''tms'' nodes). xmlNodeGetContent n = ''false'')"
proof (induction nodes arbitrary: config)
  case Nil
  show ?case by (simp add: child_elements_def)
next
  case (Cons service_node rest)
  show ?case
    by (auto simp add: Cons.IH Let_def child_elements_def is_element_def
        geocache_service_wms_create_def geocache_service_tms_create_def)
qed

text \<open>
  C8, as the code has it. After the entries of a \<open>services\<close> block, a service is
  enabled exactly when it was enabled before the block or the block has an entry of its
  protocol whose text is not \<open>false\<close> (no text counts as not \<open>false\<close>): an entry switches
  its service on unless its text is \<open>false\<close>, and no entry switches a service off. When
  the loop over the root's children ends with no service enabled and the lock directory
  probe succeeds, \<^verbatim>\<open>geocache_configuration_parse\<close> sets the parse error
  \<open>no services configured\<close>, after the calls of the probe.
\<close>

theorem services_enabled:
  "(services (parse_services_children nodes config) GEOCACHE_SERVICE_WMS \<noteq> None \<longleftrightarrow>
      services config GEOCACHE_SERVICE_WMS \<noteq> None \<or>
      (\<exists>n \<in> set (child_elements ''wms'' nodes). xmlNodeGetContent n \<noteq> ''false'')) \<and>
   (services (parse_services_children nodes config) GEOCACHE_SERVICE_TMS \<noteq> None \<longleftrightarrow>
      services config GEOCACHE_SERVICE_TMS \<noteq> None \<or>
      (\<exists>n \<in> set (child_elements ''tms'' nodes). xmlNodeGetContent n \<noteq> ''false'')) \<and>
   (xmlReadFile env filename = Some root_element \<and>
    node_type root_element = XML_ELEMENT_NODE \<and> node_name root_element = ''geocache'' \<and>
    parse_root_children env filename (ctx, config0) (node_children root_element) = Inr (ctx1, config1) \<and>
    lock_probe_ok env config1 \<and>
    services config1 GEOCACHE_SERVICE_WMS = None \<and> services config1 GEOCACHE_SERVICE_TMS = None \<longrightarrow>
      geocache_configuration_parse env ctx filename config0 =
        (set_error ctx1 GEOCACHE_PARSE_ERROR
           (''no services configured.'' @
            '' You must add a <services> tag with <wms/> or <tms/> children'') [],
         config1, lock_probe_calls config1))"
proof (intro conjI impI)
  show "services (parse_services_children nodes config) GEOCACHE_SERVICE_WMS \<noteq> None \<longleftrightarrow>
      services config GEOCACHE_SERVICE_WMS \<noteq> None \<or>
      (\<exists>n \<in> set (child_elements ''wms'' nodes). xmlNodeGetContent n \<noteq> ''false'')"
    by (auto simp add: parse_services_children_wms)
  show "services (parse_services_children nodes config) GEOCACHE_SERVICE_TMS \<noteq> None \<longleftrightarrow>
      services config GEOCACHE_SERVICE_TMS \<noteq> None \<or>
      (\<exists>n \<in> set (child_elements ''tms'' nodes). xmlNodeGetContent n \<noteq> ''false'')"
    by (auto simp add: parse_services_children_tms)
qed (simp add: geocache_configuration_parse_def parse_postconditions_def lock_probe_ok_def
      lock_probe_calls_def Let_def)

theorem services_enabled_witness:
  "services (parse_services_children [text_element ''wms'' ''false'', element ''tms'' [] []]
               geocache_configuration_create) GEOCACHE_SERVICE_WMS = None \<and>
   services (parse_services_children [text_element ''wms'' ''false'', element ''tms'' [] []]
               geocache_configuration_create) GEOCACHE_SERVICE_TMS \<noteq> None \<and>
   lock_probe_ok (sample_externals (Some services_off_document) []) geocache_configuration_create \<and>
   geocache_configuration_parse (sample_externals (Some services_off_document) []) ctx0
       ''geocache.xml'' geocache_configuration_create =
     (set_error ctx0 GEOCACHE_PARSE_ERROR
        (''no services configured.'' @
         '' You must add a <services> tag with <wms/> or <tms/> children'') [],
      geocache_configuration_create, lock_probe_calls geocache_configuration_create)"
proof -
  let ?env = "sample_externals (Some services_off_document) []"
  have r: "xmlReadFile ?env ''geocache.xml'' = Some services_off_document"
    "node_type services_off_document = XML_ELEMENT_NODE"
    "node_name services_off_document = ''geocache''"
    by (simp_all add: sample_defs)
  have w: "parse_root_children ?env ''geocache.xml'' (ctx0, geocache_configuration_create)
             (node_children services_off_document) = Inr (ctx0, geocache_configuration_create)"
    by (simp add: sample_defs orchestrator_defs registry_defs)
  have p: "lock_probe_ok ?env geocache_configuration_create"
    by (simp add: sample_defs orchestrator_defs registry_defs)
  have s: "services geocache_configuration_create GEOCACHE_SERVICE_WMS = None"
    "services geocache_configuration_create GEOCACHE_SERVICE_TMS = None"
    by (simp_all add: registry_defs)
  have c: "child_elements ''wms'' [text_element ''wms'' ''false'', element ''tms'' [] []] =
             [text_element ''wms'' ''false'']"
    "child_elements ''tms'' [text_element ''wms'' ''false'', element ''tms'' [] []] =
             [element ''tms'' [] []]"
    "xmlNodeGetContent (text_element ''wms'' ''false'') = ''false''"
    "xmlNodeGetContent (element ''tms'' [] []) = []"
    by (simp_all add: child_elements_def is_element_def sample_defs)
  from services_enabled [where nodes = "[text_element ''wms'' ''false'', element ''tms'' [] []]"
      and config = geocache_configuration_create and env = ?env and filename = "''geocache.xml''"
      and root_element = services_off_document and ctx = ctx0
      and ?config0.0 = geocache_configuration_create and ?ctx1.0 = ctx0
      and ?config1.0 = geocache_configuration_create]
    r w p s c
  show ?thesis by simp
qed

text \<open>
  C8 as the specification words it fails when the lock directory cannot be created:
  with no service enabled after the loop, the error that is set is the disk error of the
  probe, not \<open>no services configured\<close>.
\<close>

theorem services_disk_error_counterexample:
  "geocache_configuration_parse
       (sample_externals (Some services_off_document) [''/tmp/geocache_locks'']) ctx0
       ''geocache.xml'' geocache_configuration_create =
     (set_error ctx0 GEOCACHE_DISK_ERROR ''failed to create lock directory %s''
        [Fmt_s ''/tmp/geocache_locks''],
      geocache_configuration_create, [Dir_make_recursive ''/tmp/geocache_locks'']) \<and>
   services geocache_configuration_create GEOCACHE_SERVICE_WMS = None \<and>
   services geocache_configuration_create GEOCACHE_SERVICE_TMS = None"
  by (simp add: sample_defs orchestrator_defs registry_defs)

section \<open>The order of events in \<open>geocache_configuration_parse\<close>\<close>














section \<open>The sample document\<close>

text \<open>
  The document of the specification's end-to-end example is compiled without error: the
  registries hold its format, cache, source and tileset, the tileset has four levels and
  no format, and the service is enabled after a successful probe of the lock directory.
\<close>

lemma sample_document_compiles:
  "fst (geocache_configuration_parse (sample_externals (Some sample_document) []) ctx0
          ''geocache.xml'' geocache_configuration_create) = ctx0"
  "tilesets (fst (snd (geocache_configuration_parse (sample_externals (Some sample_document) [])
       ctx0 ''geocache.xml'' geocache_configuration_create))) ''t1'' =
     Some (sample_parsed_tileset 1 None)"
  "image_formats (fst (snd (geocache_configuration_parse (sample_externals (Some sample_document) [])
       ctx0 ''geocache.xml'' geocache_configuration_create))) ''PNG'' =
     Some (PNG_FORMAT ''PNG'' GEOCACHE_COMPRESSION_DEFAULT)"
  "services (fst (snd (geocache_configuration_parse (sample_externals (Some sample_document) [])
       ctx0 ''geocache.xml'' geocache_configuration_create))) GEOCACHE_SERVICE_WMS =
     Some (Service GEOCACHE_SERVICE_WMS)"
  "snd (snd (geocache_configuration_parse (sample_externals (Some sample_document) [])
       ctx0 ''geocache.xml'' geocache_configuration_create)) =
     lock_probe_calls geocache_configuration_create"
  by (simp_all add: sample_defs orchestrator_defs registry_defs number_defs format_defs
      parseSource_def parseCache_def parseTileset_def parseTileset_check_def parseTileset_child_def
      report_def double_eq_def Let_def)

end
